theory Spec2Isabelle
  imports Complex_Main "HOL-Library.Char_ord" "HOL-Library.List_Lexorder"
begin

section \<open>Strings, time stamps, errors\<close>

text \<open>
  The three routers (\<^verbatim>\<open>api/favorites.py\<close>, \<^verbatim>\<open>api/watchlist.py\<close>,
  \<^verbatim>\<open>api/paper_trades.py\<close>) are handlers over three SQLite tables. Each handler is
  embedded as a function from the request and the database to a response (or an HTTP
  error) and the database after the request. The request bodies arrive as the
  \<^verbatim>\<open>pydantic\<close> models hold them, defaults filled in. The stubs of \<^verbatim>\<open>api/main.py\<close>
  return constants and are left out.

  Every handler is given twice. The first definition is the handler over a store that
  works: a statement raises only when the request makes it raise (a constraint of the
  schema, a value SQLite cannot bind). The second, with the suffix \<open>_under\<close>, takes the
  set of the store calls that fail in this request and follows the handler's
  \<^verbatim>\<open>try\<close>, \<^verbatim>\<open>except\<close>, \<^verbatim>\<open>finally\<close>; over the empty set it is the first definition.
  The watchlist read and the two handlers that delete a row by its id are given in the
  second form only.

  Symbols are \<open>string\<close>s. Python's \<^verbatim>\<open>str.upper()\<close> is modelled on ASCII, which is
  what exchange symbols are made of: the letters a..z are mapped to A..Z and every
  other byte is kept. SQLite compares \<^verbatim>\<open>TEXT\<close> with \<^verbatim>\<open>=\<close> under its default
  \<^verbatim>\<open>BINARY\<close> collation, byte by byte, which is equality of \<open>string\<close>s here; its
  \<^verbatim>\<open>ORDER BY\<close> on \<^verbatim>\<open>TEXT\<close> is the lexicographic order of the bytes.

  A finite Python \<^verbatim>\<open>float\<close> and a SQLite \<^verbatim>\<open>REAL\<close> are idealised as \<open>real\<close>: the
  claims are about which rows are compared, counted and summed, not about rounding.
  A \<^verbatim>\<open>float\<close> of a request can also be NaN: every comparison with NaN is false, and
  \<^verbatim>\<open>sqlite3\<close> binds NaN as NULL. The two infinities are outside the model (they
  compare like numbers and are stored as they are). A Python \<^verbatim>\<open>int\<close> is unbounded;
  \<^verbatim>\<open>sqlite3\<close> raises \<^verbatim>\<open>OverflowError\<close> when it has to bind one outside 64 bits.
\<close>

datatype pyfloat = Num real | NaN

definition float_le :: "pyfloat \<Rightarrow> pyfloat \<Rightarrow> bool" where
  "float_le a b = (case a of NaN \<Rightarrow> False | Num x \<Rightarrow> (case b of NaN \<Rightarrow> False | Num y \<Rightarrow> x \<le> y))"

definition float_ge :: "pyfloat \<Rightarrow> pyfloat \<Rightarrow> bool" where
  "float_ge a b = float_le b a"

definition is_num :: "pyfloat \<Rightarrow> bool" where
  "is_num a = (case a of NaN \<Rightarrow> False | Num x \<Rightarrow> True)"

text \<open>The value bound for a \<^verbatim>\<open>float\<close>: NULL for NaN.\<close>

definition bind_float :: "pyfloat \<Rightarrow> real option" where
  "bind_float a = (case a of NaN \<Rightarrow> None | Num x \<Rightarrow> Some x)"

text \<open>The number a \<^verbatim>\<open>float\<close> is; used only where NaN has been excluded.\<close>

fun num :: "pyfloat \<Rightarrow> real" where
  "num (Num x) = x"

definition int64 :: "int \<Rightarrow> bool" where
  "int64 i = (- (2 ^ 63) \<le> i \<and> i < 2 ^ 63)"

definition upper_char :: "char \<Rightarrow> char" where
  "upper_char c =
     (let n = (of_char c :: nat) in if 97 \<le> n \<and> n \<le> 122 then char_of (n - 32) else c)"

definition upper :: "string \<Rightarrow> string" where
  "upper s = map upper_char s"

text \<open>
  \<^verbatim>\<open>datetime.utcnow().isoformat()\<close> is a parameter \<open>now\<close> of every handler that reads
  the clock; the readings of one request are one value.
\<close>

type_synonym timestamp = string

text \<open>
  \<^verbatim>\<open>HTTPException(status_code, detail)\<close>. The detail texts of the source are Russian
  sentences; each raise site is one constructor of \<open>detail\<close>.
\<close>

datatype detail =
    DirectionMustBeLongOrShort
  | EntryPriceMustBePositive
  | QuantityMustBePositive
  | LongStopLossMustBeBelowEntry
  | LongTakeProfitMustBeAboveEntry
  | ShortStopLossMustBeAboveEntry
  | ShortTakeProfitMustBeBelowEntry
  | CreateTradeFailed
  | TradeNotFound int
  | InvalidTradeStatus
  | UpdateTradeFailed
  | GetTradesFailed
  | StatsFailed
  | AlreadyFavorite string
  | AddFavoriteFailed
  | FavoriteNotFound string
  | UpdateFavoriteFailed
  | RemoveFavoriteFailed
  | ReorderFailed
  | GetFavoritesFailed
  | GetWatchlistFailed
  | AlreadyInWatchlist string
  | AddWatchlistFailed
  | WatchlistItemNotFound int
  | UpdateWatchlistFailed
  | RemoveWatchlistFailed
  | DeleteTradeFailed
  | InternalServerError

datatype http_error = HTTPException (status_code: nat) (detail: detail)

text \<open>
  What a call of \<^verbatim>\<open>sqlite3\<close> raises: \<open>IntegrityError\<close> when a statement violates a
  constraint of the schema, \<open>OverflowError\<close> when an integer parameter does not fit 64
  bits, \<open>OperationalError\<close> for a failure of the store itself. An exception of a
  handler's \<^verbatim>\<open>try\<close> block is one of these or an \<^verbatim>\<open>HTTPException\<close> the handler raised.
\<close>

datatype sqlite_error = IntegrityError | OverflowError | OperationalError

datatype exn = Http http_error | Store sqlite_error

text \<open>
  The calls a handler makes to the store, so that a request can be run with some of
  them failing: \<^verbatim>\<open>get_db_connection()\<close>; the handler's \<^verbatim>\<open>conn.execute\<close> calls,
  numbered from 0 in the order the source writes them; its \<^verbatim>\<open>conn.commit()\<close> and
  \<^verbatim>\<open>conn.rollback()\<close>; and the same four for the connection that
  \<^verbatim>\<open>update_watchlist_favorites\<close> opens inside the watchlist read.
\<close>

datatype store_call =
    Connect | Execute nat | Commit | Rollback
  | SyncConnect | SyncExecute nat | SyncCommit | SyncRollback

section \<open>The tables\<close>

text \<open>
  One record per table, one field per column, the field names prefixed by the table
  (\<open>pt_\<close>, \<open>fav_\<close>, \<open>wl_\<close>) since the tables share column names. A nullable column
  is an \<open>option\<close>. \<^verbatim>\<open>favorites.sort_order\<close>, \<^verbatim>\<open>watchlist.is_favorite\<close>,
  \<^verbatim>\<open>paper_trades.status\<close> and the \<^verbatim>\<open>is_active\<close> columns are nullable in the schema
  but every statement of the repository writes a value, so they are not options.
\<close>

record paper_trade =
  pt_id :: int
  pt_symbol :: string
  pt_alert_id :: "int option"
  pt_direction :: string
  pt_entry_price :: real
  pt_stop_loss :: real
  pt_take_profit :: real
  pt_quantity :: real
  pt_risk_amount :: real
  pt_risk_percentage :: real
  pt_position_value :: real
  pt_potential_loss :: real
  pt_potential_profit :: real
  pt_risk_reward_ratio :: real
  pt_status :: string
  pt_exit_price :: "real option"
  pt_exit_time :: "string option"
  pt_actual_profit_loss :: "real option"
  pt_notes :: "string option"
  pt_created_at :: timestamp
  pt_updated_at :: timestamp

record favorite =
  fav_id :: int
  fav_symbol :: string
  fav_is_active :: bool
  fav_price_drop_percentage :: "real option"
  fav_current_price :: "real option"
  fav_historical_price :: "real option"
  fav_notes :: "string option"
  fav_color :: "string option"
  fav_sort_order :: int
  fav_favorite_added_at :: timestamp
  fav_created_at :: timestamp
  fav_updated_at :: timestamp

record watchlist_row =
  wl_id :: int
  wl_symbol :: string
  wl_is_active :: bool
  wl_price_drop_percentage :: "real option"
  wl_current_price :: "real option"
  wl_historical_price :: "real option"
  wl_created_at :: timestamp
  wl_updated_at :: timestamp
  wl_is_favorite :: bool

text \<open>
  The database \<^verbatim>\<open>crypto_analyzer.db\<close>: each table is the list of its rows in rowid
  order. The three \<open>_seq\<close> fields are the \<^verbatim>\<open>sqlite_sequence\<close> entries of the
  \<^verbatim>\<open>AUTOINCREMENT\<close> keys: the largest id ever given out in the table.
\<close>

record db =
  favorites :: "favorite list"
  favorites_seq :: int
  watchlist :: "watchlist_row list"
  watchlist_seq :: int
  paper_trades :: "paper_trade list"
  paper_trades_seq :: int

section \<open>Paper trades: creation and update\<close>

text \<open>The request bodies \<^verbatim>\<open>PaperTradeCreate\<close> (prefix \<open>ptc_\<close>) and
  \<^verbatim>\<open>PaperTradeUpdate\<close> (prefix \<open>ptu_\<close>).\<close>

record PaperTradeCreate =
  ptc_symbol :: string
  ptc_alert_id :: "int option"
  ptc_direction :: string
  ptc_entry_price :: pyfloat
  ptc_stop_loss :: pyfloat
  ptc_take_profit :: pyfloat
  ptc_quantity :: pyfloat
  ptc_risk_amount :: pyfloat
  ptc_risk_percentage :: pyfloat
  ptc_position_value :: pyfloat
  ptc_potential_loss :: pyfloat
  ptc_potential_profit :: pyfloat
  ptc_risk_reward_ratio :: pyfloat
  ptc_status :: string
  ptc_notes :: "string option"

record PaperTradeUpdate =
  ptu_status :: "string option"
  ptu_exit_price :: "pyfloat option"
  ptu_exit_time :: "string option"
  ptu_actual_profit_loss :: "pyfloat option"
  ptu_notes :: "string option"

text \<open>
  The two \<^verbatim>\<open>CHECK\<close> constraints of \<^verbatim>\<open>paper_trades\<close>, and its \<^verbatim>\<open>NOT NULL\<close> on the
  ten \<^verbatim>\<open>REAL\<close> columns of a new trade, which a NaN violates (the other \<^verbatim>\<open>NOT NULL\<close>
  columns are strings the request always carries).
\<close>

definition not_null_reals :: "PaperTradeCreate \<Rightarrow> bool" where
  "not_null_reals trade =
     list_all is_num
       [ptc_entry_price trade, ptc_stop_loss trade, ptc_take_profit trade, ptc_quantity trade,
        ptc_risk_amount trade, ptc_risk_percentage trade, ptc_position_value trade,
        ptc_potential_loss trade, ptc_potential_profit trade, ptc_risk_reward_ratio trade]"

definition direction_check :: "string \<Rightarrow> bool" where
  "direction_check d = (d \<in> set [''LONG'', ''SHORT''])"

definition status_check :: "string \<Rightarrow> bool" where
  "status_check s = (s \<in> set [''planned'', ''active'', ''closed''])"

text \<open>
  \<^verbatim>\<open>INSERT INTO paper_trades (...) VALUES (...)\<close>: \<open>trade_row\<close> is the row of the
  statement's values, the symbol upper-cased; the columns the statement does not name
  (\<^verbatim>\<open>exit_price\<close>, \<^verbatim>\<open>exit_time\<close>, \<^verbatim>\<open>actual_profit_loss\<close>) are NULL. The statement
  raises \<open>OverflowError\<close> when \<^verbatim>\<open>alert_id\<close> does not fit 64 bits, and
  \<open>IntegrityError\<close> when a \<^verbatim>\<open>NOT NULL\<close> or a \<^verbatim>\<open>CHECK\<close> fails; otherwise the row gets
  the next id and is appended.
\<close>

definition trade_row :: "int \<Rightarrow> timestamp \<Rightarrow> PaperTradeCreate \<Rightarrow> paper_trade" where
  "trade_row i now trade =
     \<lparr> pt_id = i,
       pt_symbol = upper (ptc_symbol trade),
       pt_alert_id = ptc_alert_id trade,
       pt_direction = ptc_direction trade,
       pt_entry_price = num (ptc_entry_price trade),
       pt_stop_loss = num (ptc_stop_loss trade),
       pt_take_profit = num (ptc_take_profit trade),
       pt_quantity = num (ptc_quantity trade),
       pt_risk_amount = num (ptc_risk_amount trade),
       pt_risk_percentage = num (ptc_risk_percentage trade),
       pt_position_value = num (ptc_position_value trade),
       pt_potential_loss = num (ptc_potential_loss trade),
       pt_potential_profit = num (ptc_potential_profit trade),
       pt_risk_reward_ratio = num (ptc_risk_reward_ratio trade),
       pt_status = ptc_status trade,
       pt_exit_price = None,
       pt_exit_time = None,
       pt_actual_profit_loss = None,
       pt_notes = ptc_notes trade,
       pt_created_at = now,
       pt_updated_at = now \<rparr>"

definition insert_paper_trade ::
    "timestamp \<Rightarrow> PaperTradeCreate \<Rightarrow> db \<Rightarrow> sqlite_error + (int \<times> db)" where
  "insert_paper_trade now trade d =
     (if (case ptc_alert_id trade of None \<Rightarrow> False | Some a \<Rightarrow> \<not> int64 a)
        then Inl OverflowError
      else if not_null_reals trade \<and> direction_check (ptc_direction trade) \<and>
              status_check (ptc_status trade) then
        (let i = paper_trades_seq d + 1
         in Inr (i, d\<lparr>paper_trades := paper_trades d @ [trade_row i now trade],
                      paper_trades_seq := i\<rparr>))
      else Inl IntegrityError)"

text \<open>The response of \<^verbatim>\<open>create_paper_trade\<close> (its \<^verbatim>\<open>message\<close> text is left out).\<close>

record create_response =
  cr_id :: int
  cr_symbol :: string
  cr_direction :: string

text \<open>
  The tail of \<^verbatim>\<open>create_paper_trade\<close>, reached when no check has raised: the
  \<^verbatim>\<open>INSERT\<close>, the commit and the response. An exception of the \<^verbatim>\<open>INSERT\<close> is caught
  by \<^verbatim>\<open>except Exception\<close>: rollback, then \<^verbatim>\<open>HTTPException(500)\<close>.
\<close>

definition persist_paper_trade ::
    "timestamp \<Rightarrow> PaperTradeCreate \<Rightarrow> db \<Rightarrow> (http_error + create_response) \<times> db" where
  "persist_paper_trade now trade d =
     (case insert_paper_trade now trade d of
        Inl e \<Rightarrow> (Inl (HTTPException 500 CreateTradeFailed), d)
      | Inr (trade_id, d') \<Rightarrow>
          (Inr \<lparr> cr_id = trade_id,
                 cr_symbol = upper (ptc_symbol trade),
                 cr_direction = ptc_direction trade \<rparr>, d'))"

text \<open>
  \<^verbatim>\<open>create_paper_trade\<close>: the checks in the order of the source, each raising
  \<^verbatim>\<open>HTTPException(400)\<close> (re-raised as it is by \<^verbatim>\<open>except HTTPException: raise\<close>),
  with the \<^verbatim>\<open>else\<close> branch of the direction test standing for SHORT as in the source.
  The comparisons are Python's on \<^verbatim>\<open>float\<close>.
\<close>

definition create_paper_trade ::
    "timestamp \<Rightarrow> PaperTradeCreate \<Rightarrow> db \<Rightarrow> (http_error + create_response) \<times> db" where
  "create_paper_trade now trade d =
     (if ptc_direction trade \<notin> set [''LONG'', ''SHORT'']
        then (Inl (HTTPException 400 DirectionMustBeLongOrShort), d)
      else if float_le (ptc_entry_price trade) (Num 0)
        then (Inl (HTTPException 400 EntryPriceMustBePositive), d)
      else if float_le (ptc_quantity trade) (Num 0)
        then (Inl (HTTPException 400 QuantityMustBePositive), d)
      else if ptc_direction trade = ''LONG'' then
        (if float_ge (ptc_stop_loss trade) (ptc_entry_price trade)
           then (Inl (HTTPException 400 LongStopLossMustBeBelowEntry), d)
         else if float_le (ptc_take_profit trade) (ptc_entry_price trade)
           then (Inl (HTTPException 400 LongTakeProfitMustBeAboveEntry), d)
         else persist_paper_trade now trade d)
      else
        (if float_le (ptc_stop_loss trade) (ptc_entry_price trade)
           then (Inl (HTTPException 400 ShortStopLossMustBeAboveEntry), d)
         else if float_ge (ptc_take_profit trade) (ptc_entry_price trade)
           then (Inl (HTTPException 400 ShortTakeProfitMustBeBelowEntry), d)
         else persist_paper_trade now trade d))"

text \<open>
  \<^verbatim>\<open>update_paper_trade\<close>: the first \<^verbatim>\<open>SELECT\<close> binds \<^verbatim>\<open>trade_id\<close> (500 when it does
  not fit 64 bits); 404 when no row has the id; 400 when a status is given that is not
  one of the three; otherwise the \<^verbatim>\<open>UPDATE\<close> sets exactly the fields the request
  supplies (and \<^verbatim>\<open>updated_at\<close>), a NaN as NULL, or nothing at all when it supplies none.
\<close>

definition apply_update :: "timestamp \<Rightarrow> PaperTradeUpdate \<Rightarrow> paper_trade \<Rightarrow> paper_trade" where
  "apply_update now u r =
     r\<lparr> pt_status := (case ptu_status u of None \<Rightarrow> pt_status r | Some s \<Rightarrow> s),
        pt_exit_price := (case ptu_exit_price u of None \<Rightarrow> pt_exit_price r | Some p \<Rightarrow> bind_float p),
        pt_exit_time := (case ptu_exit_time u of None \<Rightarrow> pt_exit_time r | Some t \<Rightarrow> Some t),
        pt_actual_profit_loss :=
          (case ptu_actual_profit_loss u of None \<Rightarrow> pt_actual_profit_loss r | Some p \<Rightarrow> bind_float p),
        pt_notes := (case ptu_notes u of None \<Rightarrow> pt_notes r | Some n \<Rightarrow> Some n),
        pt_updated_at := now \<rparr>"

definition update_fields_empty :: "PaperTradeUpdate \<Rightarrow> bool" where
  "update_fields_empty u =
     (ptu_status u = None \<and> ptu_exit_price u = None \<and> ptu_exit_time u = None \<and>
      ptu_actual_profit_loss u = None \<and> ptu_notes u = None)"

definition update_paper_trade ::
    "timestamp \<Rightarrow> int \<Rightarrow> PaperTradeUpdate \<Rightarrow> db \<Rightarrow> (http_error + unit) \<times> db" where
  "update_paper_trade now trade_id trade_update d =
     (if \<not> int64 trade_id then (Inl (HTTPException 500 UpdateTradeFailed), d)
      else if \<not> list_ex (\<lambda>r. pt_id r = trade_id) (paper_trades d)
        then (Inl (HTTPException 404 (TradeNotFound trade_id)), d)
      else if (case ptu_status trade_update of
                 None \<Rightarrow> False
               | Some s \<Rightarrow> s \<notin> set [''planned'', ''active'', ''closed''])
        then (Inl (HTTPException 400 InvalidTradeStatus), d)
      else if update_fields_empty trade_update then (Inr (), d)
      else
        (Inr (), d\<lparr>paper_trades :=
           map (\<lambda>r. if pt_id r = trade_id then apply_update now trade_update r else r)
             (paper_trades d)\<rparr>))"

section \<open>Paper trades: statistics\<close>

text \<open>
  SQL aggregates over a column with NULLs (a list of options, one entry per row):
  \<^verbatim>\<open>COUNT(expr)\<close> counts the rows where the expression is not NULL; \<^verbatim>\<open>SUM\<close> and
  \<^verbatim>\<open>AVG\<close> skip the NULLs and are themselves NULL when no value is left, in
  particular over a table with no row.
\<close>

definition sql_COUNT :: "'a option list \<Rightarrow> int" where
  "sql_COUNT vs = int (length (List.map_filter (\<lambda>v. v) vs))"

definition sql_SUM :: "('a::monoid_add) option list \<Rightarrow> 'a option" where
  "sql_SUM vs =
     (let xs = List.map_filter (\<lambda>v. v) vs in if xs = [] then None else Some (sum_list xs))"

definition sql_AVG :: "real option list \<Rightarrow> real option" where
  "sql_AVG vs =
     (let xs = List.map_filter (\<lambda>v. v) vs
      in if xs = [] then None else Some (sum_list xs / real (length xs)))"

text \<open>
  The \<^verbatim>\<open>CASE\<close> expressions of the queries, per row. A comparison with NULL is not
  true, so \<^verbatim>\<open>status = 'closed' AND actual_profit_loss > 0\<close> selects the closed rows
  whose profit-loss is recorded and positive. \<^verbatim>\<open>CASE WHEN c THEN 1 END\<close> has no
  \<^verbatim>\<open>ELSE\<close> and is NULL where \<open>c\<close> is not true.
\<close>

definition case_status :: "string \<Rightarrow> paper_trade \<Rightarrow> int option" where
  "case_status s r = (if pt_status r = s then Some 1 else None)"

definition case_winning :: "paper_trade \<Rightarrow> int option" where
  "case_winning r =
     (if pt_status r = ''closed'' \<and> (case pt_actual_profit_loss r of None \<Rightarrow> False | Some p \<Rightarrow> p > 0)
      then Some 1 else Some 0)"

definition case_losing :: "paper_trade \<Rightarrow> int option" where
  "case_losing r =
     (if pt_status r = ''closed'' \<and> (case pt_actual_profit_loss r of None \<Rightarrow> False | Some p \<Rightarrow> p < 0)
      then Some 1 else Some 0)"

definition case_pnl_else_0 :: "paper_trade \<Rightarrow> real option" where
  "case_pnl_else_0 r = (if pt_status r = ''closed'' then pt_actual_profit_loss r else Some 0)"

definition case_pnl_else_null :: "paper_trade \<Rightarrow> real option" where
  "case_pnl_else_null r = (if pt_status r = ''closed'' then pt_actual_profit_loss r else None)"

text \<open>The row of the first query: the dictionary \<^verbatim>\<open>stats\<close>, a JSON \<^verbatim>\<open>null\<close> being \<open>None\<close>.\<close>

record general_stats =
  total_trades :: int
  planned_trades :: int
  active_trades :: int
  closed_trades :: int
  winning_trades :: "int option"
  losing_trades :: "int option"
  total_pnl :: "real option"
  avg_pnl :: "real option"
  total_risk_amount :: "real option"

definition general :: "paper_trade list \<Rightarrow> general_stats" where
  "general ts =
     \<lparr> total_trades = int (length ts),
       planned_trades = sql_COUNT (map (case_status ''planned'') ts),
       active_trades = sql_COUNT (map (case_status ''active'') ts),
       closed_trades = sql_COUNT (map (case_status ''closed'') ts),
       winning_trades = sql_SUM (map case_winning ts),
       losing_trades = sql_SUM (map case_losing ts),
       total_pnl = sql_SUM (map case_pnl_else_0 ts),
       avg_pnl = sql_AVG (map case_pnl_else_null ts),
       total_risk_amount = sql_SUM (map (\<lambda>r. Some (pt_risk_amount r)) ts) \<rparr>"

text \<open>
  The second and third query group the rows. A group is the rows of one key; the
  keys are taken in the order of their first row. SQL leaves the order of the groups
  of \<^verbatim>\<open>GROUP BY direction\<close> and the order among symbols with the same count open; the
  model fixes the first-row order there (the sort by count is stable).
\<close>

record symbol_stat =
  ss_symbol :: string
  ss_trades_count :: int
  ss_symbol_pnl :: "real option"

record direction_stat =
  ds_direction :: string
  ds_trades_count :: int
  ds_direction_pnl :: "real option"
  ds_avg_pnl :: "real option"

definition by_symbol :: "paper_trade list \<Rightarrow> symbol_stat list" where
  "by_symbol ts =
     take 10 (sort_key (\<lambda>g. - ss_trades_count g)
       (map (\<lambda>k. let rows = filter (\<lambda>r. pt_symbol r = k) ts
                 in \<lparr> ss_symbol = k,
                      ss_trades_count = int (length rows),
                      ss_symbol_pnl = sql_SUM (map case_pnl_else_0 rows) \<rparr>)
            (remdups (map pt_symbol ts))))"

definition by_direction :: "paper_trade list \<Rightarrow> direction_stat list" where
  "by_direction ts =
     map (\<lambda>k. let rows = filter (\<lambda>r. pt_direction r = k) ts
              in \<lparr> ds_direction = k,
                   ds_trades_count = int (length rows),
                   ds_direction_pnl = sql_SUM (map case_pnl_else_0 rows),
                   ds_avg_pnl = sql_AVG (map case_pnl_else_null rows) \<rparr>)
         (remdups (map pt_direction ts))"

record stats_response =
  sr_general :: general_stats
  sr_by_symbol :: "symbol_stat list"
  sr_by_direction :: "direction_stat list"

text \<open>
  \<^verbatim>\<open>get_paper_trading_stats\<close>: three read-only queries. No statement of the handler
  can violate a constraint, so with a working store the \<^verbatim>\<open>except\<close> branch (500) is
  not taken and the handler returns the three views.
\<close>

definition get_paper_trading_stats :: "db \<Rightarrow> (http_error + stats_response) \<times> db" where
  "get_paper_trading_stats d =
     (Inr \<lparr> sr_general = general (paper_trades d),
            sr_by_symbol = by_symbol (paper_trades d),
            sr_by_direction = by_direction (paper_trades d) \<rparr>, d)"

section \<open>Favorites\<close>

text \<open>
  \<^verbatim>\<open>ORDER BY\<close> is an insertion sort by the comparison of the query's keys. Rows that
  agree on every key keep their table order, which SQL leaves open.
\<close>

fun insert_by :: "('a \<Rightarrow> 'a \<Rightarrow> bool) \<Rightarrow> 'a \<Rightarrow> 'a list \<Rightarrow> 'a list" where
  "insert_by le x [] = [x]"
| "insert_by le x (y # ys) = (if le x y then x # y # ys else y # insert_by le x ys)"

definition order_by :: "('a \<Rightarrow> 'a \<Rightarrow> bool) \<Rightarrow> 'a list \<Rightarrow> 'a list" where
  "order_by le xs = foldr (insert_by le) xs []"

text \<open>The request body \<^verbatim>\<open>FavoriteCreate\<close> (prefix \<open>fc_\<close>); \<^verbatim>\<open>FavoriteUpdate\<close> (prefix
  \<open>fu_\<close>); \<^verbatim>\<open>FavoriteReorder\<close> is its one field, the list \<^verbatim>\<open>symbol_order\<close>.\<close>

record FavoriteCreate =
  fc_symbol :: string
  fc_notes :: "string option"
  fc_color :: "string option"

record FavoriteUpdate =
  fu_notes :: "string option"
  fu_color :: "string option"

text \<open>\<^verbatim>\<open>c or '#FFD700'\<close>: the default replaces \<^verbatim>\<open>None\<close> and the empty string.\<close>

definition color_or_default :: "string option \<Rightarrow> string" where
  "color_or_default c = (case c of None \<Rightarrow> ''#FFD700'' | Some x \<Rightarrow> if x = [] then ''#FFD700'' else x)"

text \<open>\<^verbatim>\<open>ORDER BY sort_order ASC, favorite_added_at DESC\<close>.\<close>

definition fav_before :: "favorite \<Rightarrow> favorite \<Rightarrow> bool" where
  "fav_before a b =
     (fav_sort_order a < fav_sort_order b \<or>
      (fav_sort_order a = fav_sort_order b \<and> fav_favorite_added_at b \<le> fav_favorite_added_at a))"

text \<open>
  \<^verbatim>\<open>get_favorites\<close>: the rows in that order, \<^verbatim>\<open>color\<close> defaulted in the response
  (\<^verbatim>\<open>sort_order or 0\<close> changes no integer).
\<close>

definition get_favorites :: "db \<Rightarrow> (http_error + favorite list) \<times> db" where
  "get_favorites d =
     (Inr (map (\<lambda>f. f\<lparr>fav_color := Some (color_or_default (fav_color f))\<rparr>)
             (order_by fav_before (favorites d))), d)"

text \<open>\<^verbatim>\<open>SELECT MAX(sort_order)\<close>: NULL over the empty table.\<close>

definition max_sort_order :: "favorite list \<Rightarrow> int option" where
  "max_sort_order fs =
     (case fs of [] \<Rightarrow> None | f # rest \<Rightarrow> Some (fold max (map fav_sort_order rest) (fav_sort_order f)))"

text \<open>
  \<^verbatim>\<open>INSERT INTO favorites (symbol, notes, color, sort_order, favorite_added_at)\<close>:
  \<^verbatim>\<open>symbol\<close> is \<^verbatim>\<open>UNIQUE\<close>, so the statement raises \<open>IntegrityError\<close> when a row
  already has the symbol, and \<open>OverflowError\<close> when \<^verbatim>\<open>sort_order\<close> does not fit 64
  bits. \<^verbatim>\<open>is_active\<close> takes its default \<^verbatim>\<open>TRUE\<close>, and
  \<^verbatim>\<open>created_at\<close> and \<^verbatim>\<open>updated_at\<close> the store's \<^verbatim>\<open>CURRENT_TIMESTAMP\<close>, the
  parameter \<open>current_timestamp\<close>.
\<close>

definition insert_favorite ::
    "timestamp \<Rightarrow> string \<Rightarrow> string option \<Rightarrow> string \<Rightarrow> int \<Rightarrow> timestamp \<Rightarrow> db
      \<Rightarrow> sqlite_error + (int \<times> db)" where
  "insert_favorite current_timestamp symbol notes color sort_order favorite_added_at d =
     (if \<not> int64 sort_order then Inl OverflowError
      else if list_ex (\<lambda>f. fav_symbol f = symbol) (favorites d) then Inl IntegrityError
      else
        (let i = favorites_seq d + 1;
             row = \<lparr> fav_id = i,
                     fav_symbol = symbol,
                     fav_is_active = True,
                     fav_price_drop_percentage = None,
                     fav_current_price = None,
                     fav_historical_price = None,
                     fav_notes = notes,
                     fav_color = Some color,
                     fav_sort_order = sort_order,
                     fav_favorite_added_at = favorite_added_at,
                     fav_created_at = current_timestamp,
                     fav_updated_at = current_timestamp \<rparr>
         in Inr (i, d\<lparr>favorites := favorites d @ [row], favorites_seq := i\<rparr>)))"

record add_response =
  ar_id :: int
  ar_symbol :: string

text \<open>
  \<^verbatim>\<open>add_favorite\<close>. The duplicate check selects \<^verbatim>\<open>WHERE symbol = ?\<close> with
  \<^verbatim>\<open>favorite.symbol\<close> as the client sent it; the \<^verbatim>\<open>INSERT\<close> stores
  \<^verbatim>\<open>favorite.symbol.upper()\<close>. \<^verbatim>\<open>max_order\<close> is \<^verbatim>\<open>MAX(sort_order) or 0\<close>. An
  exception of the \<^verbatim>\<open>INSERT\<close> is caught by \<^verbatim>\<open>except Exception\<close>: rollback, then 500.
\<close>

definition add_favorite ::
    "timestamp \<Rightarrow> timestamp \<Rightarrow> FavoriteCreate \<Rightarrow> db \<Rightarrow> (http_error + add_response) \<times> db" where
  "add_favorite now current_timestamp favorite d =
     (if list_ex (\<lambda>f. fav_symbol f = fc_symbol favorite) (favorites d)
        then (Inl (HTTPException 400 (AlreadyFavorite (fc_symbol favorite))), d)
      else
        (let max_order = (case max_sort_order (favorites d) of None \<Rightarrow> 0 | Some m \<Rightarrow> m)
         in case insert_favorite current_timestamp (upper (fc_symbol favorite)) (fc_notes favorite)
                   (color_or_default (fc_color favorite)) (max_order + 1) now d of
              Inl e \<Rightarrow> (Inl (HTTPException 500 AddFavoriteFailed), d)
            | Inr (favorite_id, d') \<Rightarrow>
                (Inr \<lparr> ar_id = favorite_id, ar_symbol = upper (fc_symbol favorite) \<rparr>, d')))"

text \<open>\<^verbatim>\<open>update_favorite\<close>: 404 unless a row has the upper-cased symbol; then the supplied
  fields are set.\<close>

definition update_favorite ::
    "timestamp \<Rightarrow> string \<Rightarrow> FavoriteUpdate \<Rightarrow> db \<Rightarrow> (http_error + unit) \<times> db" where
  "update_favorite now symbol favorite d =
     (if \<not> list_ex (\<lambda>f. fav_symbol f = upper symbol) (favorites d)
        then (Inl (HTTPException 404 (FavoriteNotFound symbol)), d)
      else if fu_notes favorite = None \<and> fu_color favorite = None then (Inr (), d)
      else
        (Inr (), d\<lparr>favorites :=
           map (\<lambda>f. if fav_symbol f = upper symbol
                     then f\<lparr> fav_notes := (case fu_notes favorite of None \<Rightarrow> fav_notes f | Some n \<Rightarrow> Some n),
                             fav_color := (case fu_color favorite of None \<Rightarrow> fav_color f | Some c \<Rightarrow> Some c),
                             fav_updated_at := now \<rparr>
                     else f)
             (favorites d)\<rparr>))"

text \<open>\<^verbatim>\<open>remove_favorite\<close>: 404 unless a row has the upper-cased symbol; then
  \<^verbatim>\<open>DELETE FROM favorites WHERE symbol = ?\<close>.\<close>

definition remove_favorite :: "string \<Rightarrow> db \<Rightarrow> (http_error + unit) \<times> db" where
  "remove_favorite symbol d =
     (if \<not> list_ex (\<lambda>f. fav_symbol f = upper symbol) (favorites d)
        then (Inl (HTTPException 404 (FavoriteNotFound symbol)), d)
      else (Inr (), d\<lparr>favorites := filter (\<lambda>f. fav_symbol f \<noteq> upper symbol) (favorites d)\<rparr>))"

text \<open>
  \<^verbatim>\<open>reorder_favorites\<close>: one \<^verbatim>\<open>UPDATE favorites SET sort_order = ?, updated_at = ?
  WHERE symbol = ?\<close> per element of \<^verbatim>\<open>enumerate(reorder.symbol_order)\<close>, in list order,
  with the index and the upper-cased symbol. An \<^verbatim>\<open>UPDATE\<close> that matches no row changes
  nothing and raises nothing.
\<close>

definition set_sort_order :: "timestamp \<Rightarrow> nat \<times> string \<Rightarrow> favorite list \<Rightarrow> favorite list" where
  "set_sort_order now = (\<lambda>(index, symbol).
     map (\<lambda>f. if fav_symbol f = upper symbol
               then f\<lparr>fav_sort_order := int index, fav_updated_at := now\<rparr> else f))"

definition reorder_favorites :: "timestamp \<Rightarrow> string list \<Rightarrow> db \<Rightarrow> (http_error + unit) \<times> db" where
  "reorder_favorites now symbol_order d =
     (Inr (), d\<lparr>favorites := fold (set_sort_order now) (enumerate 0 symbol_order) (favorites d)\<rparr>)"

section \<open>Watchlist\<close>

text \<open>
  The two \<^verbatim>\<open>UPDATE\<close>s of \<^verbatim>\<open>update_watchlist_favorites\<close>: clear every flag, then set
  it on the rows whose symbol is a favorite's.
\<close>

definition clear_flags :: "watchlist_row list \<Rightarrow> watchlist_row list" where
  "clear_flags ws = map (\<lambda>w. w\<lparr>wl_is_favorite := False\<rparr>) ws"

definition set_flags :: "favorite list \<Rightarrow> watchlist_row list \<Rightarrow> watchlist_row list" where
  "set_flags fs ws =
     map (\<lambda>w. if wl_symbol w \<in> set (map fav_symbol fs) then w\<lparr>wl_is_favorite := True\<rparr> else w) ws"

text \<open>
  \<^verbatim>\<open>update_watchlist_favorites\<close>, run with the store calls in \<open>F\<close> failing. It opens
  a connection of its own before its \<^verbatim>\<open>try\<close>, so a failure to connect leaves the
  function as an exception. The two \<^verbatim>\<open>UPDATE\<close>s and the commit are inside \<^verbatim>\<open>try\<close>:
  when one of them fails, \<^verbatim>\<open>except Exception\<close> logs, rolls back and lets the function
  return normally, the table as it was; only a rollback that fails too leaves the
  function as an exception. The result is the exception, or the database on return.
\<close>

definition update_watchlist_favorites :: "store_call set \<Rightarrow> db \<Rightarrow> sqlite_error + db" where
  "update_watchlist_favorites F d =
     (if SyncConnect \<in> F then Inl OperationalError
      else if SyncExecute 0 \<in> F \<or> SyncExecute 1 \<in> F \<or> SyncCommit \<in> F then
        (if SyncRollback \<in> F then Inl OperationalError else Inr d)
      else Inr (d\<lparr>watchlist := set_flags (favorites d) (clear_flags (watchlist d))\<rparr>))"

text \<open>\<^verbatim>\<open>ORDER BY is_favorite DESC, symbol ASC\<close>.\<close>

definition wl_before :: "watchlist_row \<Rightarrow> watchlist_row \<Rightarrow> bool" where
  "wl_before a b =
     ((wl_is_favorite a \<and> \<not> wl_is_favorite b) \<or>
      (wl_is_favorite a = wl_is_favorite b \<and> wl_symbol a \<le> wl_symbol b))"

text \<open>
  \<^verbatim>\<open>get_watchlist\<close>, run with the store calls in \<open>F\<close> failing. The handler's own
  connection is opened before its \<^verbatim>\<open>try\<close>: when that fails no handler catches the
  exception and the framework answers 500. Inside \<^verbatim>\<open>try\<close> come the call of
  \<^verbatim>\<open>update_watchlist_favorites\<close> and the \<^verbatim>\<open>SELECT\<close>; an exception of either is turned
  into \<^verbatim>\<open>HTTPException(500)\<close> by \<^verbatim>\<open>except Exception\<close> (no rollback here). What the
  recomputation has committed stays committed.
\<close>

definition get_watchlist ::
    "store_call set \<Rightarrow> db \<Rightarrow> (http_error + watchlist_row list) \<times> db" where
  "get_watchlist F d =
     (if Connect \<in> F then (Inl (HTTPException 500 InternalServerError), d)
      else
        (case update_watchlist_favorites F d of
           Inl e \<Rightarrow> (Inl (HTTPException 500 GetWatchlistFailed), d)
         | Inr d' \<Rightarrow>
             if Execute 0 \<in> F then (Inl (HTTPException 500 GetWatchlistFailed), d')
             else (Inr (order_by wl_before (watchlist d')), d')))"

text \<open>\<^verbatim>\<open>add_to_watchlist\<close>: duplicate check and \<^verbatim>\<open>INSERT\<close>, both with
  \<^verbatim>\<open>item.symbol.upper()\<close>; \<^verbatim>\<open>is_active\<close> and \<^verbatim>\<open>is_favorite\<close> take their defaults.\<close>

definition add_to_watchlist :: "timestamp \<Rightarrow> string \<Rightarrow> db \<Rightarrow> (http_error + add_response) \<times> db" where
  "add_to_watchlist now symbol d =
     (if list_ex (\<lambda>w. wl_symbol w = upper symbol) (watchlist d)
        then (Inl (HTTPException 400 (AlreadyInWatchlist symbol)), d)
      else
        (let i = watchlist_seq d + 1;
             row = \<lparr> wl_id = i,
                     wl_symbol = upper symbol,
                     wl_is_active = True,
                     wl_price_drop_percentage = None,
                     wl_current_price = None,
                     wl_historical_price = None,
                     wl_created_at = now,
                     wl_updated_at = now,
                     wl_is_favorite = False \<rparr>
         in (Inr \<lparr> ar_id = i, ar_symbol = upper symbol \<rparr>,
             d\<lparr>watchlist := watchlist d @ [row], watchlist_seq := i\<rparr>)))"

text \<open>
  \<^verbatim>\<open>update_watchlist_item\<close>: the first \<^verbatim>\<open>SELECT\<close> binds \<^verbatim>\<open>item_id\<close> (500 when it does
  not fit 64 bits); 404 unless a row has the id; then the \<^verbatim>\<open>UPDATE\<close> stores
  \<^verbatim>\<open>item.symbol.upper()\<close> and \<^verbatim>\<open>item.is_active\<close>. The \<^verbatim>\<open>UPDATE\<close> violates \<^verbatim>\<open>UNIQUE\<close>
  when another row already has the symbol (rollback, 500).
\<close>

definition update_watchlist_item ::
    "timestamp \<Rightarrow> int \<Rightarrow> string \<Rightarrow> bool \<Rightarrow> db \<Rightarrow> (http_error + unit) \<times> db" where
  "update_watchlist_item now item_id symbol is_active d =
     (if \<not> int64 item_id then (Inl (HTTPException 500 UpdateWatchlistFailed), d)
      else if \<not> list_ex (\<lambda>w. wl_id w = item_id) (watchlist d)
        then (Inl (HTTPException 404 (WatchlistItemNotFound item_id)), d)
      else if list_ex (\<lambda>w. wl_symbol w = upper symbol \<and> wl_id w \<noteq> item_id) (watchlist d)
        then (Inl (HTTPException 500 UpdateWatchlistFailed), d)
      else
        (Inr (), d\<lparr>watchlist :=
           map (\<lambda>w. if wl_id w = item_id
                     then w\<lparr>wl_symbol := upper symbol, wl_is_active := is_active,
                            wl_updated_at := now\<rparr>
                     else w)
             (watchlist d)\<rparr>))"

text \<open>
  \<^verbatim>\<open>get_paper_trades\<close>: the optional filters (\<^verbatim>\<open>if status:\<close> and \<^verbatim>\<open>if symbol:\<close> skip
  \<^verbatim>\<open>None\<close> and the empty string), the symbol upper-cased, newest first.
\<close>

definition get_paper_trades ::
    "string option \<Rightarrow> string option \<Rightarrow> db \<Rightarrow> (http_error + paper_trade list) \<times> db" where
  "get_paper_trades status symbol d =
     (Inr (order_by (\<lambda>a b. pt_created_at b \<le> pt_created_at a)
            (filter (\<lambda>r. (case status of None \<Rightarrow> True | Some s \<Rightarrow> s = [] \<or> pt_status r = s) \<and>
                          (case symbol of None \<Rightarrow> True | Some s \<Rightarrow> s = [] \<or> pt_symbol r = upper s))
               (paper_trades d))), d)"

section \<open>The handlers over a store that can fail\<close>

text \<open>
  \<open>call F c rest\<close> is a call \<open>c\<close> of the store followed by the rest of the
  \<^verbatim>\<open>try\<close> block: the call raises when it is one of the failing calls \<open>F\<close>.
\<close>

definition call :: "store_call set \<Rightarrow> store_call \<Rightarrow> exn + 'a \<Rightarrow> exn + 'a" where
  "call F c rest = (if c \<in> F then Inl (Store OperationalError) else rest)"

text \<open>
  The frame every mutating handler puts around its \<^verbatim>\<open>try\<close> block \<open>body\<close>:
  \<^verbatim>\<open>conn = get_db_connection()\<close> stands before \<^verbatim>\<open>try\<close>, so when it fails no handler
  catches the exception and the framework answers 500 \<^verbatim>\<open>Internal Server Error\<close>;
  \<^verbatim>\<open>except HTTPException: raise\<close> passes the handler's own error on;
  \<^verbatim>\<open>except Exception\<close> logs, rolls back and raises \<^verbatim>\<open>HTTPException(500)\<close> with the
  handler's message \<open>det\<close>, unless the rollback fails too, which again leaves the
  handler as an uncaught exception. Nothing is committed unless the block returns.
  The read handlers have the same frame without the rollback.
\<close>

definition handler ::
    "store_call set \<Rightarrow> detail \<Rightarrow> db \<Rightarrow> exn + 'a \<times> db \<Rightarrow> (http_error + 'a) \<times> db" where
  "handler F det d body =
     (if Connect \<in> F then (Inl (HTTPException 500 InternalServerError), d)
      else
        (case body of
           Inr (v, d') \<Rightarrow> (Inr v, d')
         | Inl (Http e) \<Rightarrow> (Inl e, d)
         | Inl (Store e) \<Rightarrow>
             if Rollback \<in> F then (Inl (HTTPException 500 InternalServerError), d)
             else (Inl (HTTPException 500 det), d)))"

definition read_handler ::
    "store_call set \<Rightarrow> detail \<Rightarrow> db \<Rightarrow> exn + 'a \<times> db \<Rightarrow> (http_error + 'a) \<times> db" where
  "read_handler F det d body =
     (if Connect \<in> F then (Inl (HTTPException 500 InternalServerError), d)
      else
        (case body of
           Inr (v, d') \<Rightarrow> (Inr v, d')
         | Inl (Http e) \<Rightarrow> (Inl e, d)
         | Inl (Store e) \<Rightarrow> (Inl (HTTPException 500 det), d)))"

subsection \<open>Favorites\<close>

definition get_favorites_under :: "store_call set \<Rightarrow> db \<Rightarrow> (http_error + favorite list) \<times> db" where
  "get_favorites_under F d =
     read_handler F GetFavoritesFailed d
       (call F (Execute 0)
          (Inr (map (\<lambda>f. f\<lparr>fav_color := Some (color_or_default (fav_color f))\<rparr>)
                  (order_by fav_before (favorites d)), d)))"

definition add_favorite_under ::
    "store_call set \<Rightarrow> timestamp \<Rightarrow> timestamp \<Rightarrow> FavoriteCreate \<Rightarrow> db
      \<Rightarrow> (http_error + add_response) \<times> db" where
  "add_favorite_under F now current_timestamp favorite d =
     handler F AddFavoriteFailed d
       (call F (Execute 0)
          (if list_ex (\<lambda>f. fav_symbol f = fc_symbol favorite) (favorites d)
             then Inl (Http (HTTPException 400 (AlreadyFavorite (fc_symbol favorite))))
           else
             call F (Execute 1)
               (let max_order = (case max_sort_order (favorites d) of None \<Rightarrow> 0 | Some m \<Rightarrow> m)
                in call F (Execute 2)
                     (case insert_favorite current_timestamp (upper (fc_symbol favorite))
                             (fc_notes favorite) (color_or_default (fc_color favorite))
                             (max_order + 1) now d of
                        Inl e \<Rightarrow> Inl (Store e)
                      | Inr (favorite_id, d') \<Rightarrow>
                          call F Commit
                            (Inr (\<lparr> ar_id = favorite_id,
                                     ar_symbol = upper (fc_symbol favorite) \<rparr>, d'))))))"

definition update_favorite_under ::
    "store_call set \<Rightarrow> timestamp \<Rightarrow> string \<Rightarrow> FavoriteUpdate \<Rightarrow> db \<Rightarrow> (http_error + unit) \<times> db" where
  "update_favorite_under F now symbol favorite d =
     handler F UpdateFavoriteFailed d
       (call F (Execute 0)
          (if \<not> list_ex (\<lambda>f. fav_symbol f = upper symbol) (favorites d)
             then Inl (Http (HTTPException 404 (FavoriteNotFound symbol)))
           else if fu_notes favorite = None \<and> fu_color favorite = None then Inr ((), d)
           else
             call F (Execute 1)
               (call F Commit
                  (Inr ((), d\<lparr>favorites :=
                     map (\<lambda>f. if fav_symbol f = upper symbol
                               then f\<lparr> fav_notes :=
                                        (case fu_notes favorite of
                                           None \<Rightarrow> fav_notes f | Some n \<Rightarrow> Some n),
                                       fav_color :=
                                        (case fu_color favorite of
                                           None \<Rightarrow> fav_color f | Some c \<Rightarrow> Some c),
                                       fav_updated_at := now \<rparr>
                               else f)
                       (favorites d)\<rparr>)))))"

definition remove_favorite_under ::
    "store_call set \<Rightarrow> string \<Rightarrow> db \<Rightarrow> (http_error + unit) \<times> db" where
  "remove_favorite_under F symbol d =
     handler F RemoveFavoriteFailed d
       (call F (Execute 0)
          (if \<not> list_ex (\<lambda>f. fav_symbol f = upper symbol) (favorites d)
             then Inl (Http (HTTPException 404 (FavoriteNotFound symbol)))
           else
             call F (Execute 1)
               (call F Commit
                  (Inr ((), d\<lparr>favorites :=
                     filter (\<lambda>f. fav_symbol f \<noteq> upper symbol) (favorites d)\<rparr>)))))"

text \<open>
  The loop of \<^verbatim>\<open>reorder_favorites\<close> makes one \<^verbatim>\<open>execute\<close> call per element of the
  list, numbered by the element's index; it is left at the first call that fails.
\<close>

definition reorder_favorites_under ::
    "store_call set \<Rightarrow> timestamp \<Rightarrow> string list \<Rightarrow> db \<Rightarrow> (http_error + unit) \<times> db" where
  "reorder_favorites_under F now symbol_order d =
     handler F ReorderFailed d
       (if list_ex (\<lambda>k. Execute k \<in> F) [0..<length symbol_order]
          then Inl (Store OperationalError)
        else
          call F Commit
            (Inr ((), d\<lparr>favorites :=
               fold (set_sort_order now) (enumerate 0 symbol_order) (favorites d)\<rparr>)))"

subsection \<open>Watchlist\<close>

definition add_to_watchlist_under ::
    "store_call set \<Rightarrow> timestamp \<Rightarrow> string \<Rightarrow> db \<Rightarrow> (http_error + add_response) \<times> db" where
  "add_to_watchlist_under F now symbol d =
     handler F AddWatchlistFailed d
       (call F (Execute 0)
          (if list_ex (\<lambda>w. wl_symbol w = upper symbol) (watchlist d)
             then Inl (Http (HTTPException 400 (AlreadyInWatchlist symbol)))
           else
             call F (Execute 1)
               (let i = watchlist_seq d + 1;
                    row = \<lparr> wl_id = i,
                            wl_symbol = upper symbol,
                            wl_is_active = True,
                            wl_price_drop_percentage = None,
                            wl_current_price = None,
                            wl_historical_price = None,
                            wl_created_at = now,
                            wl_updated_at = now,
                            wl_is_favorite = False \<rparr>
                in call F Commit
                     (Inr (\<lparr> ar_id = i, ar_symbol = upper symbol \<rparr>,
                           d\<lparr>watchlist := watchlist d @ [row], watchlist_seq := i\<rparr>)))))"

definition update_watchlist_item_under ::
    "store_call set \<Rightarrow> timestamp \<Rightarrow> int \<Rightarrow> string \<Rightarrow> bool \<Rightarrow> db \<Rightarrow> (http_error + unit) \<times> db" where
  "update_watchlist_item_under F now item_id symbol is_active d =
     handler F UpdateWatchlistFailed d
       (if \<not> int64 item_id then Inl (Store OverflowError)
        else
          call F (Execute 0)
            (if \<not> list_ex (\<lambda>w. wl_id w = item_id) (watchlist d)
               then Inl (Http (HTTPException 404 (WatchlistItemNotFound item_id)))
             else
               call F (Execute 1)
                 (if list_ex (\<lambda>w. wl_symbol w = upper symbol \<and> wl_id w \<noteq> item_id) (watchlist d)
                    then Inl (Store IntegrityError)
                  else
                    call F Commit
                      (Inr ((), d\<lparr>watchlist :=
                         map (\<lambda>w. if wl_id w = item_id
                                   then w\<lparr>wl_symbol := upper symbol, wl_is_active := is_active,
                                          wl_updated_at := now\<rparr>
                                   else w)
                           (watchlist d)\<rparr>)))))"


subsection \<open>Paper trades\<close>

definition get_paper_trades_under ::
    "store_call set \<Rightarrow> string option \<Rightarrow> string option \<Rightarrow> db
      \<Rightarrow> (http_error + paper_trade list) \<times> db" where
  "get_paper_trades_under F status symbol d =
     read_handler F GetTradesFailed d
       (call F (Execute 0)
          (Inr (order_by (\<lambda>a b. pt_created_at b \<le> pt_created_at a)
                  (filter (\<lambda>r. (case status of None \<Rightarrow> True | Some s \<Rightarrow> s = [] \<or> pt_status r = s) \<and>
                                (case symbol of None \<Rightarrow> True
                                 | Some s \<Rightarrow> s = [] \<or> pt_symbol r = upper s))
                     (paper_trades d)), d)))"

definition persist_paper_trade_under ::
    "store_call set \<Rightarrow> timestamp \<Rightarrow> PaperTradeCreate \<Rightarrow> db \<Rightarrow> exn + create_response \<times> db" where
  "persist_paper_trade_under F now trade d =
     call F (Execute 0)
       (case insert_paper_trade now trade d of
          Inl e \<Rightarrow> Inl (Store e)
        | Inr (trade_id, d') \<Rightarrow>
            call F Commit
              (Inr (\<lparr> cr_id = trade_id,
                       cr_symbol = upper (ptc_symbol trade),
                       cr_direction = ptc_direction trade \<rparr>, d')))"

definition create_paper_trade_under ::
    "store_call set \<Rightarrow> timestamp \<Rightarrow> PaperTradeCreate \<Rightarrow> db
      \<Rightarrow> (http_error + create_response) \<times> db" where
  "create_paper_trade_under F now trade d =
     handler F CreateTradeFailed d
       (if ptc_direction trade \<notin> set [''LONG'', ''SHORT'']
          then Inl (Http (HTTPException 400 DirectionMustBeLongOrShort))
        else if float_le (ptc_entry_price trade) (Num 0)
          then Inl (Http (HTTPException 400 EntryPriceMustBePositive))
        else if float_le (ptc_quantity trade) (Num 0)
          then Inl (Http (HTTPException 400 QuantityMustBePositive))
        else if ptc_direction trade = ''LONG'' then
          (if float_ge (ptc_stop_loss trade) (ptc_entry_price trade)
             then Inl (Http (HTTPException 400 LongStopLossMustBeBelowEntry))
           else if float_le (ptc_take_profit trade) (ptc_entry_price trade)
             then Inl (Http (HTTPException 400 LongTakeProfitMustBeAboveEntry))
           else persist_paper_trade_under F now trade d)
        else
          (if float_le (ptc_stop_loss trade) (ptc_entry_price trade)
             then Inl (Http (HTTPException 400 ShortStopLossMustBeAboveEntry))
           else if float_ge (ptc_take_profit trade) (ptc_entry_price trade)
             then Inl (Http (HTTPException 400 ShortTakeProfitMustBeBelowEntry))
           else persist_paper_trade_under F now trade d))"

definition update_paper_trade_under ::
    "store_call set \<Rightarrow> timestamp \<Rightarrow> int \<Rightarrow> PaperTradeUpdate \<Rightarrow> db \<Rightarrow> (http_error + unit) \<times> db" where
  "update_paper_trade_under F now trade_id trade_update d =
     handler F UpdateTradeFailed d
       (if \<not> int64 trade_id then Inl (Store OverflowError)
        else
          call F (Execute 0)
            (if \<not> list_ex (\<lambda>r. pt_id r = trade_id) (paper_trades d)
               then Inl (Http (HTTPException 404 (TradeNotFound trade_id)))
             else if (case ptu_status trade_update of
                        None \<Rightarrow> False
                      | Some s \<Rightarrow> s \<notin> set [''planned'', ''active'', ''closed''])
               then Inl (Http (HTTPException 400 InvalidTradeStatus))
             else if update_fields_empty trade_update then Inr ((), d)
             else
               call F (Execute 1)
                 (call F Commit
                    (Inr ((), d\<lparr>paper_trades :=
                       map (\<lambda>r. if pt_id r = trade_id
                                 then apply_update now trade_update r else r)
                         (paper_trades d)\<rparr>)))))"


definition get_paper_trading_stats_under ::
    "store_call set \<Rightarrow> db \<Rightarrow> (http_error + stats_response) \<times> db" where
  "get_paper_trading_stats_under F d =
     read_handler F StatsFailed d
       (call F (Execute 0)
          (call F (Execute 1)
             (call F (Execute 2)
                (Inr (\<lparr> sr_general = general (paper_trades d),
                         sr_by_symbol = by_symbol (paper_trades d),
                         sr_by_direction = by_direction (paper_trades d) \<rparr>, d)))))"

section \<open>The vocabulary of the claims, and example data\<close>

text \<open>
  The rejection condition of trade creation in the words of the specification: the
  direction is neither LONG nor SHORT; the entry price or the quantity is not positive;
  a LONG trade whose stop-loss is not below or whose take-profit is not above the entry
  price; a SHORT trade whose stop-loss is not above or whose take-profit is not below it.
  The comparisons are those of floats, so none of them holds of a NaN.
\<close>

definition spec_reject_condition :: "PaperTradeCreate \<Rightarrow> bool" where
  "spec_reject_condition t =
     ((ptc_direction t \<noteq> ''LONG'' \<and> ptc_direction t \<noteq> ''SHORT'') \<or>
      float_le (ptc_entry_price t) (Num 0) \<or>
      float_le (ptc_quantity t) (Num 0) \<or>
      (ptc_direction t = ''LONG'' \<and>
         (float_ge (ptc_stop_loss t) (ptc_entry_price t) \<or>
          float_le (ptc_take_profit t) (ptc_entry_price t))) \<or>
      (ptc_direction t = ''SHORT'' \<and>
         (float_le (ptc_stop_loss t) (ptc_entry_price t) \<or>
          float_ge (ptc_take_profit t) (ptc_entry_price t))))"

text \<open>
  A request the table can hold: its status is one of the enumeration, none of its
  numeric fields is NaN, and its \<^verbatim>\<open>alert_id\<close>, if it has one, fits 64 bits. And a run
  of trade creation in which the store does not fail in any of the three calls the
  handler makes.
\<close>

definition storable :: "PaperTradeCreate \<Rightarrow> bool" where
  "storable t =
     (ptc_status t \<in> set [''planned'', ''active'', ''closed''] \<and> not_null_reals t \<and>
      (case ptc_alert_id t of None \<Rightarrow> True | Some a \<Rightarrow> int64 a))"

definition store_works_for_create :: "store_call set \<Rightarrow> bool" where
  "store_works_for_create F = (Connect \<notin> F \<and> Execute 0 \<notin> F \<and> Commit \<notin> F)"

text \<open>The database with no rows, and a reading of the clock.\<close>

definition empty_db :: db where
  "empty_db = \<lparr> favorites = [], favorites_seq = 0, watchlist = [], watchlist_seq = 0,
                paper_trades = [], paper_trades_seq = 0 \<rparr>"

definition t0 :: timestamp where
  "t0 = ''2024-01-01T00:00:00''"

text \<open>
  The trade of the specification's scenario (LONG, entry 100, stop 95, take 110), its
  symbol sent in lower case; the same trade with a status outside the enumeration,
  with a NaN as its risk amount, and with an \<^verbatim>\<open>alert_id\<close> of \<open>2 ^ 63\<close>.
\<close>

definition long_trade :: PaperTradeCreate where
  "long_trade =
     \<lparr> ptc_symbol = ''btcusdt'', ptc_alert_id = None, ptc_direction = ''LONG'',
       ptc_entry_price = Num 100, ptc_stop_loss = Num 95, ptc_take_profit = Num 110,
       ptc_quantity = Num 1, ptc_risk_amount = Num 5, ptc_risk_percentage = Num 5,
       ptc_position_value = Num 100, ptc_potential_loss = Num 5,
       ptc_potential_profit = Num 10, ptc_risk_reward_ratio = Num 2,
       ptc_status = ''planned'', ptc_notes = None \<rparr>"

definition bogus_status_trade :: PaperTradeCreate where
  "bogus_status_trade = long_trade\<lparr>ptc_status := ''bogus''\<rparr>"

definition nan_trade :: PaperTradeCreate where
  "nan_trade = long_trade\<lparr>ptc_risk_amount := NaN\<rparr>"

definition overflow_trade :: PaperTradeCreate where
  "overflow_trade = long_trade\<lparr>ptc_alert_id := Some (2 ^ 63)\<rparr>"

text \<open>
  The trade of the scenario closed with a realized profit of 8:
  \<^verbatim>\<open>PUT /paper-trades/1\<close> with \<^verbatim>\<open>{status: closed, actual_profit_loss: 8}\<close> after its
  creation on the empty database.
\<close>

definition close_with_8 :: PaperTradeUpdate where
  "close_with_8 =
     \<lparr> ptu_status = Some ''closed'', ptu_exit_price = None, ptu_exit_time = None,
       ptu_actual_profit_loss = Some (Num 8), ptu_notes = None \<rparr>"

definition scenario_db :: db where
  "scenario_db =
     snd (update_paper_trade t0 1 close_with_8 (snd (create_paper_trade t0 long_trade empty_db)))"

text \<open>
  The \<^verbatim>\<open>general\<close> object of the response of \<^verbatim>\<open>GET /paper-trades/stats\<close>
  (\<open>None\<close> if the handler raised).
\<close>

definition stats_general :: "db \<Rightarrow> general_stats option" where
  "stats_general d =
     (case fst (get_paper_trading_stats d) of Inl e \<Rightarrow> None | Inr resp \<Rightarrow> Some (sr_general resp))"

text \<open>
  The words of the statistics claims: a closed trade; the winning trades (closed, with
  a recorded realized profit-loss above 0) and the losing ones (below 0); the realized
  profit-loss values recorded on closed trades; a closed trade with none recorded.
\<close>

definition is_closed :: "paper_trade \<Rightarrow> bool" where
  "is_closed r = (pt_status r = ''closed'')"

definition winners :: "paper_trade list \<Rightarrow> paper_trade list" where
  "winners ts =
     filter (\<lambda>r. is_closed r \<and> (case pt_actual_profit_loss r of None \<Rightarrow> False | Some p \<Rightarrow> 0 < p)) ts"

definition losers :: "paper_trade list \<Rightarrow> paper_trade list" where
  "losers ts =
     filter (\<lambda>r. is_closed r \<and> (case pt_actual_profit_loss r of None \<Rightarrow> False | Some p \<Rightarrow> p < 0)) ts"

definition closed_pnls :: "paper_trade list \<Rightarrow> real list" where
  "closed_pnls ts = List.map_filter pt_actual_profit_loss (filter is_closed ts)"

definition closed_without_pnl :: "paper_trade \<Rightarrow> bool" where
  "closed_without_pnl r = (is_closed r \<and> pt_actual_profit_loss r = None)"

text \<open>
  Two candidate statistics of the empty table: every aggregate but the four
  \<^verbatim>\<open>COUNT\<close>s null; and the counts and sums 0 with the average null.
\<close>

definition null_stats :: general_stats where
  "null_stats =
     \<lparr> total_trades = 0, planned_trades = 0, active_trades = 0, closed_trades = 0,
       winning_trades = None, losing_trades = None, total_pnl = None,
       avg_pnl = None, total_risk_amount = None \<rparr>"

definition zero_stats :: general_stats where
  "zero_stats =
     \<lparr> total_trades = 0, planned_trades = 0, active_trades = 0, closed_trades = 0,
       winning_trades = Some 0, losing_trades = Some 0, total_pnl = Some 0,
       avg_pnl = None, total_risk_amount = Some 0 \<rparr>"

text \<open>
  The words of the reorder claims. A symbol is mentioned in the request's list when an
  element of the list, upper-cased, is the symbol; \<open>i\<close> is its position when the
  element at the 0-based index \<open>i\<close> is the symbol and no later element is (for a symbol
  that occurs once, its position; for a repeated symbol, the last one).
\<close>

definition mentioned :: "string \<Rightarrow> string list \<Rightarrow> bool" where
  "mentioned sy L = list_ex (\<lambda>s. upper s = sy) L"

definition is_last_position :: "string \<Rightarrow> string list \<Rightarrow> nat \<Rightarrow> bool" where
  "is_last_position sy L i =
     (i < length L \<and> upper (L ! i) = sy \<and> \<not> mentioned sy (drop (Suc i) L))"

text \<open>One \<^verbatim>\<open>UPDATE\<close> of the reorder loop, seen from a single row.\<close>

definition row_step :: "timestamp \<Rightarrow> nat \<times> string \<Rightarrow> favorite \<Rightarrow> favorite" where
  "row_step now = (\<lambda>(index, symbol) f.
     if fav_symbol f = upper symbol
     then f\<lparr>fav_sort_order := int index, fav_updated_at := now\<rparr> else f)"

text \<open>The symbols of the response of \<^verbatim>\<open>GET /favorites\<close>, in its order.\<close>

definition favorites_listing :: "db \<Rightarrow> string list option" where
  "favorites_listing d =
     (case fst (get_favorites d) of Inl e \<Rightarrow> None | Inr fs \<Rightarrow> Some (map fav_symbol fs))"

text \<open>
  Example data for the favorites: a request body with the default color; later readings
  of the clock and a \<^verbatim>\<open>CURRENT_TIMESTAMP\<close> of the store; the row such a request
  produces; the database after A, B and C have been added in this order; the database
  after BTCUSDT has been added; a request list with a lower-case, a repeated and an
  unknown symbol.
\<close>

definition fav_req :: "string \<Rightarrow> FavoriteCreate" where
  "fav_req s = \<lparr> fc_symbol = s, fc_notes = None, fc_color = Some ''#FFD700'' \<rparr>"

definition t1 :: timestamp where
  "t1 = ''2024-01-01T00:00:01''"

definition t2 :: timestamp where
  "t2 = ''2024-01-01T00:00:02''"

definition ct :: timestamp where
  "ct = ''2024-01-01 00:00:00''"

definition fav_row :: "int \<Rightarrow> string \<Rightarrow> int \<Rightarrow> timestamp \<Rightarrow> favorite" where
  "fav_row i s so ts =
     \<lparr> fav_id = i, fav_symbol = s, fav_is_active = True, fav_price_drop_percentage = None,
       fav_current_price = None, fav_historical_price = None, fav_notes = None,
       fav_color = Some ''#FFD700'', fav_sort_order = so, fav_favorite_added_at = ts,
       fav_created_at = ct, fav_updated_at = ct \<rparr>"

definition abc_db :: db where
  "abc_db =
     snd (add_favorite t2 ct (fav_req ''C'')
       (snd (add_favorite t1 ct (fav_req ''B'')
         (snd (add_favorite t0 ct (fav_req ''A'') empty_db)))))"

definition btc_fav_db :: db where
  "btc_fav_db = snd (add_favorite t0 ct (fav_req ''BTCUSDT'') empty_db)"

definition mixed_order :: "string list" where
  "mixed_order = [''eth'', ''B'', ''a'', ''b'']"

text \<open>
  Example data for the watchlist: a watchlist row; the database after ETHUSDT and
  BTCUSDT have been put on the watchlist and BTCUSDT has been made a favorite; and the
  database after the watchlist has then been read and the favorite deleted, where the
  stored flag of BTCUSDT is still true. \<open>listing F d\<close> is the symbols and flags of the
  response of \<^verbatim>\<open>GET /watchlist\<close> when the store calls \<open>F\<close> fail.
\<close>

definition wl_row :: "int \<Rightarrow> string \<Rightarrow> timestamp \<Rightarrow> bool \<Rightarrow> watchlist_row" where
  "wl_row i s ts fl =
     \<lparr> wl_id = i, wl_symbol = s, wl_is_active = True, wl_price_drop_percentage = None,
       wl_current_price = None, wl_historical_price = None, wl_created_at = ts,
       wl_updated_at = ts, wl_is_favorite = fl \<rparr>"

definition watch_db :: db where
  "watch_db =
     snd (add_favorite t2 ct (fav_req ''btcusdt'')
       (snd (add_to_watchlist t1 ''btcusdt''
         (snd (add_to_watchlist t0 ''ethusdt'' empty_db)))))"

definition stale_db :: db where
  "stale_db = snd (remove_favorite ''btcusdt'' (snd (get_watchlist {} watch_db)))"

definition listing :: "store_call set \<Rightarrow> db \<Rightarrow> (string \<times> bool) list option" where
  "listing F d =
     (case fst (get_watchlist F d) of
        Inl e \<Rightarrow> None
      | Inr rows \<Rightarrow> Some (map (\<lambda>w. (wl_symbol w, wl_is_favorite w)) rows))"

text \<open>
  The words of the claims about the watchlist read. The read reaches its listing when
  the handler's own connection and its \<^verbatim>\<open>SELECT\<close> do not fail. The recomputation
  succeeds when none of its four calls fails. It is abandoned when one of its two
  \<^verbatim>\<open>UPDATE\<close>s or its commit fails while its connection and its rollback work. It
  raises when its connection cannot be opened, or when the rollback fails after one of
  the three has.
\<close>

definition listing_reached :: "store_call set \<Rightarrow> bool" where
  "listing_reached F = (Connect \<notin> F \<and> Execute 0 \<notin> F)"

definition recomputation_succeeds :: "store_call set \<Rightarrow> bool" where
  "recomputation_succeeds F =
     (SyncConnect \<notin> F \<and> SyncExecute 0 \<notin> F \<and> SyncExecute 1 \<notin> F \<and> SyncCommit \<notin> F)"


definition recomputation_abandoned :: "store_call set \<Rightarrow> bool" where
  "recomputation_abandoned F =
     ((SyncExecute 0 \<in> F \<or> SyncExecute 1 \<in> F \<or> SyncCommit \<in> F) \<and>
      SyncConnect \<notin> F \<and> SyncRollback \<notin> F)"

text \<open>
  The words of the claim about errors. A failure is surfaced by a response \<open>r\<close> when
  \<open>r\<close> is an HTTP 500 carrying the handler's own message \<open>det\<close> or the framework's
  \<^verbatim>\<open>Internal Server Error\<close>, and nothing has been committed. A handler that was run
  with the store calls \<open>F\<close> failing has answered properly when its response is the one
  of the run over a working store, \<open>r0\<close>, or surfaces a failure; and the latter
  whenever its connection could not be opened.
\<close>

definition surfaced :: "detail \<Rightarrow> db \<Rightarrow> (http_error + 'a) \<times> db \<Rightarrow> bool" where
  "surfaced det d r =
     (r = (Inl (HTTPException 500 det), d) \<or> r = (Inl (HTTPException 500 InternalServerError), d))"



section \<open>Trade creation: validation and the constraints of the table\<close>

lemma upper_btcusdt: "upper ''btcusdt'' = ''BTCUSDT''"
  by code_simp

text \<open>Over a store that works the second form of the handler is the first.\<close>

lemma create_paper_trade_under_empty:
  "create_paper_trade_under {} now trade d = create_paper_trade now trade d"
  by (simp add: create_paper_trade_under_def create_paper_trade_def handler_def call_def
      persist_paper_trade_under_def persist_paper_trade_def split: sum.splits)

lemma update_paper_trade_under_empty:
  "update_paper_trade_under {} now trade_id u d = update_paper_trade now trade_id u d"
  by (simp add: update_paper_trade_under_def update_paper_trade_def handler_def call_def)

text \<open>The checks come before every statement: a request that meets the rejection
  condition is answered 400 whenever the connection opens, whatever else fails.\<close>

lemma create_rejected:
  "Connect \<notin> F \<Longrightarrow> spec_reject_condition trade \<Longrightarrow>
     \<exists>det. create_paper_trade_under F now trade d = (Inl (HTTPException 400 det), d)"
  by (auto simp: create_paper_trade_under_def handler_def spec_reject_condition_def)

lemma create_400_only_if:
  "fst (create_paper_trade_under F now trade d) = Inl (HTTPException 400 det) \<Longrightarrow>
     spec_reject_condition trade"
  by (auto simp: create_paper_trade_under_def handler_def persist_paper_trade_under_def call_def
      spec_reject_condition_def split: if_splits sum.splits prod.splits exn.splits)

lemma create_not_rejected:
  "Connect \<notin> F \<Longrightarrow> \<not> spec_reject_condition trade \<Longrightarrow>
     create_paper_trade_under F now trade d =
       handler F CreateTradeFailed d (persist_paper_trade_under F now trade d)"
  by (auto simp: create_paper_trade_under_def handler_def spec_reject_condition_def)

lemma insert_storable:
  "storable trade \<Longrightarrow> direction_check (ptc_direction trade) \<Longrightarrow>
     insert_paper_trade now trade d =
       Inr (paper_trades_seq d + 1,
            d\<lparr>paper_trades := paper_trades d @ [trade_row (paper_trades_seq d + 1) now trade],
              paper_trades_seq := paper_trades_seq d + 1\<rparr>)"
  by (auto simp: storable_def insert_paper_trade_def status_check_def Let_def
      split: option.splits)

lemma direction_check_not_rejected:
  "\<not> spec_reject_condition trade \<Longrightarrow> direction_check (ptc_direction trade)"
  by (auto simp: spec_reject_condition_def direction_check_def)

lemma create_inserts:
  assumes "storable trade" and "\<not> spec_reject_condition trade" and "store_works_for_create F"
  shows "create_paper_trade_under F now trade d =
       (Inr \<lparr> cr_id = paper_trades_seq d + 1, cr_symbol = upper (ptc_symbol trade),
              cr_direction = ptc_direction trade \<rparr>,
        d\<lparr>paper_trades := paper_trades d @ [trade_row (paper_trades_seq d + 1) now trade],
          paper_trades_seq := paper_trades_seq d + 1\<rparr>)"
proof -
  from assms(3) have F: "Connect \<notin> F" "Execute 0 \<notin> F" "Commit \<notin> F"
    by (simp_all add: store_works_for_create_def)
  from assms(1,2) have "insert_paper_trade now trade d =
       Inr (paper_trades_seq d + 1,
            d\<lparr>paper_trades := paper_trades d @ [trade_row (paper_trades_seq d + 1) now trade],
              paper_trades_seq := paper_trades_seq d + 1\<rparr>)"
    by (simp add: insert_storable direction_check_not_rejected)
  with F assms(2) show ?thesis
    by (simp add: create_not_rejected persist_paper_trade_under_def call_def handler_def)
qed

text \<open>
  Claim C1, as amended. When the connection opens and the rejection condition of the
  specification holds, \<^verbatim>\<open>POST /paper-trades\<close> answers 400 and the database is as
  before. For a request the table can hold (a status of the enumeration, no NaN, an
  \<^verbatim>\<open>alert_id\<close> within 64 bits) the converse holds: it is answered 400 only if the
  condition holds; and when the condition does not hold and the store does not fail,
  the trade is inserted: the response carries the new id, and the table gains exactly
  one row, built from the request with the symbol upper-cased. (What happens to
  another request that does not meet the condition is not part of this statement.)
\<close>

theorem create_paper_trade_validation:
  "(Connect \<notin> F \<and> spec_reject_condition trade \<longrightarrow>
      (\<exists>det. create_paper_trade_under F now trade d = (Inl (HTTPException 400 det), d))) \<and>
   (storable trade \<and>
    (\<exists>det. fst (create_paper_trade_under F now trade d) = Inl (HTTPException 400 det)) \<longrightarrow>
      spec_reject_condition trade) \<and>
   (storable trade \<and> \<not> spec_reject_condition trade \<and> store_works_for_create F \<longrightarrow>
      create_paper_trade_under F now trade d =
        (Inr \<lparr> cr_id = paper_trades_seq d + 1, cr_symbol = upper (ptc_symbol trade),
               cr_direction = ptc_direction trade \<rparr>,
         d\<lparr>paper_trades := paper_trades d @ [trade_row (paper_trades_seq d + 1) now trade],
           paper_trades_seq := paper_trades_seq d + 1\<rparr>) \<and>
      pt_symbol (trade_row (paper_trades_seq d + 1) now trade) = upper (ptc_symbol trade))"
proof (intro conjI impI)
  assume "Connect \<notin> F \<and> spec_reject_condition trade"
  then show "\<exists>det. create_paper_trade_under F now trade d = (Inl (HTTPException 400 det), d)"
    by (simp add: create_rejected)
next
  assume "storable trade \<and>
    (\<exists>det. fst (create_paper_trade_under F now trade d) = Inl (HTTPException 400 det))"
  then show "spec_reject_condition trade"
    using create_400_only_if by blast
next
  assume "storable trade \<and> \<not> spec_reject_condition trade \<and> store_works_for_create F"
  then show "create_paper_trade_under F now trade d =
        (Inr \<lparr> cr_id = paper_trades_seq d + 1, cr_symbol = upper (ptc_symbol trade),
               cr_direction = ptc_direction trade \<rparr>,
         d\<lparr>paper_trades := paper_trades d @ [trade_row (paper_trades_seq d + 1) now trade],
           paper_trades_seq := paper_trades_seq d + 1\<rparr>)"
    by (simp add: create_inserts)
next
  show "pt_symbol (trade_row (paper_trades_seq d + 1) now trade) = upper (ptc_symbol trade)"
    by (simp add: trade_row_def)
qed

lemma long_trade_not_rejected: "\<not> spec_reject_condition long_trade"
  by (simp add: spec_reject_condition_def long_trade_def float_le_def float_ge_def)

lemma long_trade_storable: "storable long_trade"
  by (simp add: storable_def long_trade_def not_null_reals_def is_num_def)

text \<open>The scenario trade on the empty database, no call failing: accepted, stored as
  BTCUSDT with id 1.\<close>

theorem create_paper_trade_validation_witness:
  "storable long_trade \<and> \<not> spec_reject_condition long_trade \<and> store_works_for_create {} \<and>
   fst (create_paper_trade_under {} t0 long_trade empty_db) =
     Inr \<lparr> cr_id = 1, cr_symbol = ''BTCUSDT'', cr_direction = ''LONG'' \<rparr> \<and>
   map pt_symbol (paper_trades (snd (create_paper_trade_under {} t0 long_trade empty_db))) =
     [''BTCUSDT'']"
proof -
  have h: "storable long_trade \<and> \<not> spec_reject_condition long_trade \<and> store_works_for_create {}"
    by (simp add: long_trade_not_rejected long_trade_storable store_works_for_create_def)
  from create_paper_trade_validation [of "{}" long_trade t0 empty_db] h
  have "create_paper_trade_under {} t0 long_trade empty_db =
        (Inr \<lparr> cr_id = paper_trades_seq empty_db + 1, cr_symbol = upper (ptc_symbol long_trade),
               cr_direction = ptc_direction long_trade \<rparr>,
         empty_db\<lparr>paper_trades :=
             paper_trades empty_db @ [trade_row (paper_trades_seq empty_db + 1) t0 long_trade],
           paper_trades_seq := paper_trades_seq empty_db + 1\<rparr>)"
    by blast
  then show ?thesis
    using h by (simp add: empty_db_def trade_row_def long_trade_def upper_btcusdt)
qed

text \<open>
  Claim C1 as stated fails: the scenario trade with the status \<open>bogus\<close> meets none of
  the five conditions, and yet no row is inserted.
\<close>

theorem create_paper_trade_bogus_status_not_inserted:
  "\<not> spec_reject_condition bogus_status_trade \<and>
   paper_trades (snd (create_paper_trade t0 bogus_status_trade empty_db)) = []"
  by (simp add: spec_reject_condition_def create_paper_trade_def persist_paper_trade_def
      insert_paper_trade_def bogus_status_trade_def long_trade_def status_check_def
      direction_check_def empty_db_def float_le_def float_ge_def not_null_reals_def is_num_def)

text \<open>
  So do the scenario trade with a NaN, which \<^verbatim>\<open>NOT NULL\<close> rejects, and the one whose
  \<^verbatim>\<open>alert_id\<close> does not fit 64 bits: neither meets a condition, both are answered 500.
\<close>

lemma create_paper_trade_nan_500:
  "\<not> spec_reject_condition nan_trade \<and>
   create_paper_trade now nan_trade d = (Inl (HTTPException 500 CreateTradeFailed), d)"
  by (simp add: spec_reject_condition_def create_paper_trade_def persist_paper_trade_def
      insert_paper_trade_def nan_trade_def long_trade_def float_le_def float_ge_def
      not_null_reals_def is_num_def)

lemma create_paper_trade_overflow_500:
  "\<not> spec_reject_condition overflow_trade \<and>
   create_paper_trade now overflow_trade d = (Inl (HTTPException 500 CreateTradeFailed), d)"
  by (simp add: spec_reject_condition_def create_paper_trade_def persist_paper_trade_def
      insert_paper_trade_def overflow_trade_def long_trade_def float_le_def float_ge_def
      int64_def)

text \<open>
  Claim C6 at \<^verbatim>\<open>POST /paper-trades\<close>: a request with the status \<open>bogus\<close> and
  otherwise valid fields is not answered with 400. No check of the handler looks at the
  status; the \<^verbatim>\<open>CHECK\<close> constraint of the table rejects the \<^verbatim>\<open>INSERT\<close>, and the handler
  answers 500, whatever the database holds. No row is inserted.
\<close>

theorem create_paper_trade_invalid_status_500:
  "create_paper_trade now bogus_status_trade d = (Inl (HTTPException 500 CreateTradeFailed), d)"
  by (simp add: create_paper_trade_def persist_paper_trade_def
      insert_paper_trade_def bogus_status_trade_def long_trade_def status_check_def
      direction_check_def float_le_def float_ge_def not_null_reals_def is_num_def)

text \<open>
  The sibling \<^verbatim>\<open>PUT /paper-trades/{id}\<close> does validate the status: on an existing trade
  an invalid status is answered with 400 and nothing is modified.
\<close>

lemma update_invalid_status_400:
  "int64 trade_id \<Longrightarrow> list_ex (\<lambda>r. pt_id r = trade_id) (paper_trades d) \<Longrightarrow>
   ptu_status u = Some s \<Longrightarrow> \<not> status_check s \<Longrightarrow>
     update_paper_trade now trade_id u d = (Inl (HTTPException 400 InvalidTradeStatus), d)"
  by (simp add: update_paper_trade_def status_check_def)


section \<open>Statistics\<close>

text \<open>The aggregates of the first query, column by column.\<close>

lemma sum_indicator:
  "sum_list (map (\<lambda>r. if P r then (1::int) else 0) ts) = int (length (filter P ts))"
  by (induction ts) auto

lemma sum_winning:
  "sql_SUM (map case_winning ts) = (if ts = [] then None else Some (int (length (winners ts))))"
proof -
  have "List.map_filter (\<lambda>v. v) (map case_winning ts) =
      map (\<lambda>r. if is_closed r \<and> (case pt_actual_profit_loss r of None \<Rightarrow> False | Some p \<Rightarrow> 0 < p)
                then 1 else 0) ts"
    by (induction ts) (auto simp: case_winning_def is_closed_def)
  then show ?thesis
    by (simp add: sql_SUM_def sum_indicator winners_def)
qed

lemma sum_losing:
  "sql_SUM (map case_losing ts) = (if ts = [] then None else Some (int (length (losers ts))))"
proof -
  have "List.map_filter (\<lambda>v. v) (map case_losing ts) =
      map (\<lambda>r. if is_closed r \<and> (case pt_actual_profit_loss r of None \<Rightarrow> False | Some p \<Rightarrow> p < 0)
                then 1 else 0) ts"
    by (induction ts) (auto simp: case_losing_def is_closed_def)
  then show ?thesis
    by (simp add: sql_SUM_def sum_indicator losers_def)
qed

lemma sum_risk:
  "sql_SUM (map (\<lambda>r. Some (pt_risk_amount r)) ts) =
     (if ts = [] then None else Some (sum_list (map pt_risk_amount ts)))"
proof -
  have "List.map_filter (\<lambda>v. v) (map (\<lambda>r. Some (pt_risk_amount r)) ts) = map pt_risk_amount ts"
    by (induction ts) auto
  then show ?thesis
    by (simp add: sql_SUM_def)
qed

lemma non_null_pnl_else_null:
  "List.map_filter (\<lambda>v. v) (map case_pnl_else_null ts) = closed_pnls ts"
  by (induction ts)
     (auto simp: case_pnl_else_null_def closed_pnls_def is_closed_def
        split: option.splits)

lemma non_null_pnl_else_0_empty:
  "List.map_filter (\<lambda>v. v) (map case_pnl_else_0 ts) = [] \<longleftrightarrow> list_all closed_without_pnl ts"
  by (induction ts)
     (auto simp: case_pnl_else_0_def closed_without_pnl_def is_closed_def
        split: option.splits)

lemma non_null_pnl_else_0_sum:
  "sum_list (List.map_filter (\<lambda>v. v) (map case_pnl_else_0 ts)) = sum_list (closed_pnls ts)"
  by (induction ts)
     (auto simp: case_pnl_else_0_def closed_pnls_def is_closed_def
        split: option.splits)

lemma sum_pnl:
  "sql_SUM (map case_pnl_else_0 ts) =
     (if list_all closed_without_pnl ts then None else Some (sum_list (closed_pnls ts)))"
  by (simp add: sql_SUM_def Let_def non_null_pnl_else_0_empty non_null_pnl_else_0_sum)

lemma avg_pnl_closed:
  "sql_AVG (map case_pnl_else_null ts) =
     (if closed_pnls ts = [] then None
      else Some (sum_list (closed_pnls ts) / real (length (closed_pnls ts))))"
  by (simp add: sql_AVG_def Let_def non_null_pnl_else_null)

text \<open>
  What the first query computes, for every table. \<^verbatim>\<open>winning_trades\<close>,
  \<^verbatim>\<open>losing_trades\<close> and \<^verbatim>\<open>total_risk_amount\<close> are the counts and the sum of the
  specification over a table with at least one row, and NULL over the empty table;
  \<^verbatim>\<open>total_pnl\<close> is the sum of the realized profit-loss recorded on closed trades, and
  NULL when every row is a closed trade with none recorded; \<^verbatim>\<open>avg_pnl\<close> is the average
  of those values, and NULL when there is none.
\<close>

lemma general_stats_computed:
  "\<exists>g. stats_general d = Some g \<and>
     winning_trades g =
       (if paper_trades d = [] then None else Some (int (length (winners (paper_trades d))))) \<and>
     losing_trades g =
       (if paper_trades d = [] then None else Some (int (length (losers (paper_trades d))))) \<and>
     total_pnl g =
       (if list_all closed_without_pnl (paper_trades d) then None
        else Some (sum_list (closed_pnls (paper_trades d)))) \<and>
     avg_pnl g =
       (if closed_pnls (paper_trades d) = [] then None
        else Some (sum_list (closed_pnls (paper_trades d)) /
                   real (length (closed_pnls (paper_trades d))))) \<and>
     total_risk_amount g =
       (if paper_trades d = [] then None
        else Some (sum_list (map pt_risk_amount (paper_trades d))))"
  by (simp add: stats_general_def get_paper_trading_stats_def general_def sum_winning
      sum_losing sum_pnl avg_pnl_closed sum_risk)

text \<open>
  The scenario of the specification: after the trade is closed with a profit of 8, it
  is the one winning trade, and the sum and the average are 8.
\<close>

lemma scenario_db_trades:
  "paper_trades scenario_db =
     [(trade_row 1 t0 long_trade)\<lparr>pt_status := ''closed'', pt_actual_profit_loss := Some 8\<rparr>]"
  by (simp add: scenario_db_def create_paper_trade_def persist_paper_trade_def
      insert_paper_trade_def update_paper_trade_def apply_update_def close_with_8_def
      long_trade_def empty_db_def direction_check_def status_check_def trade_row_def
      update_fields_empty_def float_le_def float_ge_def not_null_reals_def is_num_def
      bind_float_def int64_def)

lemma general_stats_scenario:
  "\<exists>g. stats_general scenario_db = Some g \<and>
     winning_trades g = Some 1 \<and> losing_trades g = Some 0 \<and> total_pnl g = Some 8 \<and>
     avg_pnl g = Some 8 \<and> total_risk_amount g = Some 5"
proof -
  have n: "paper_trades scenario_db \<noteq> []"
    and w: "length (winners (paper_trades scenario_db)) = 1"
    and l: "length (losers (paper_trades scenario_db)) = 0"
    and p: "closed_pnls (paper_trades scenario_db) = [8]"
    and c: "\<not> list_all closed_without_pnl (paper_trades scenario_db)"
    and r: "map pt_risk_amount (paper_trades scenario_db) = [5]"
    by (simp_all add: scenario_db_trades winners_def losers_def closed_pnls_def
        closed_without_pnl_def is_closed_def trade_row_def long_trade_def)
  from general_stats_computed [of scenario_db] show ?thesis
    unfolding w l p c r using n c by simp
qed

text \<open>A closed trade at exactly 0 is neither winning nor losing.\<close>

lemma zero_pnl_in_neither:
  "is_closed r \<Longrightarrow> pt_actual_profit_loss r = Some 0 \<Longrightarrow> winners [r] = [] \<and> losers [r] = []"
  by (simp add: winners_def losers_def)

text \<open>
  Claim C2 at the empty table. No trade is winning and none is losing, so the two
  counts of the claim are 0, and its two sums are the empty sums, 0. The response
  carries null in all four places: the columns are \<^verbatim>\<open>SUM\<close> aggregates (over
  \<^verbatim>\<open>CASE ... THEN 1 ELSE 0 END\<close> for the two counts), and \<^verbatim>\<open>SUM\<close> over no rows is NULL,
  where the \<^verbatim>\<open>COUNT\<close> columns beside them are 0.
\<close>

theorem winning_trades_empty_is_null:
  "map_option winning_trades (stats_general empty_db) = Some None \<and>
   map_option losing_trades (stats_general empty_db) = Some None \<and>
   map_option total_pnl (stats_general empty_db) = Some None \<and>
   map_option total_risk_amount (stats_general empty_db) = Some None \<and>
   map_option closed_trades (stats_general empty_db) = Some 0 \<and>
   int (length (winners (paper_trades empty_db))) = 0 \<and>
   int (length (losers (paper_trades empty_db))) = 0"
  by (simp add: stats_general_def get_paper_trading_stats_def general_def sql_SUM_def
      sql_COUNT_def empty_db_def winners_def losers_def)

text \<open>Over any table without rows the handler succeeds and returns these statistics.\<close>

lemma stats_empty:
  "paper_trades d = [] \<Longrightarrow>
     get_paper_trading_stats d =
       (Inr \<lparr> sr_general = null_stats, sr_by_symbol = [], sr_by_direction = [] \<rparr>, d)"
  by (simp add: get_paper_trading_stats_def general_def by_symbol_def by_direction_def
      sql_COUNT_def sql_SUM_def sql_AVG_def null_stats_def)

text \<open>
  Claim C3 at the empty database. The handler succeeds, the views by symbol and by
  direction are empty and the average is null, as the claim says. But only the four
  \<^verbatim>\<open>COUNT\<close> columns are 0: \<^verbatim>\<open>winning_trades\<close>, \<^verbatim>\<open>losing_trades\<close>, \<^verbatim>\<open>total_pnl\<close> and
  \<^verbatim>\<open>total_risk_amount\<close> are null, so the response is not the one of the claim.
\<close>

theorem stats_empty_db_is_null:
  "get_paper_trading_stats empty_db =
     (Inr \<lparr> sr_general = null_stats, sr_by_symbol = [], sr_by_direction = [] \<rparr>, empty_db) \<and>
   fst (get_paper_trading_stats empty_db) \<noteq>
     Inr \<lparr> sr_general = zero_stats, sr_by_symbol = [], sr_by_direction = [] \<rparr>"
  by (simp add: get_paper_trading_stats_def general_def by_symbol_def by_direction_def
      sql_COUNT_def sql_SUM_def sql_AVG_def null_stats_def zero_stats_def empty_db_def)


section \<open>Reordering favorites\<close>

text \<open>The loop of \<^verbatim>\<open>UPDATE\<close>s acts on every row independently.\<close>

lemma fold_rows:
  "fold (set_sort_order now) ps fs = map (fold (row_step now) ps) fs"
proof (induction ps arbitrary: fs)
  case Nil
  show ?case by simp
next
  case (Cons p ps)
  have "set_sort_order now p fs = map (row_step now p) fs"
    by (cases p) (simp add: set_sort_order_def row_step_def)
  then show ?case
    by (simp add: Cons.IH comp_def)
qed

lemma row_symbol: "fav_symbol (fold (row_step now) ps f) = fav_symbol f"
  by (induction ps arbitrary: f) (auto simp: row_step_def)

lemma row_untouched:
  "\<not> list_ex (\<lambda>p. upper (snd p) = fav_symbol f) ps \<Longrightarrow> fold (row_step now) ps f = f"
  by (induction ps arbitrary: f) (auto simp: row_step_def)

lemma row_last_match:
  assumes "upper s = fav_symbol f" and "\<not> list_ex (\<lambda>p. upper (snd p) = fav_symbol f) qs"
  shows "fav_sort_order (fold (row_step now) (ps @ (i, s) # qs) f) = int i"
proof -
  let ?g = "fold (row_step now) ps f"
  let ?h = "row_step now (i, s) ?g"
  have g: "fav_symbol ?g = fav_symbol f"
    by (rule row_symbol)
  then have h: "fav_symbol ?h = fav_symbol f"
    by (simp add: row_step_def)
  have "fold (row_step now) (ps @ (i, s) # qs) f = fold (row_step now) qs ?h"
    by simp
  also have "\<dots> = ?h"
  proof (rule row_untouched)
    show "\<not> list_ex (\<lambda>p. upper (snd p) = fav_symbol ?h) qs"
      unfolding h by (rule assms(2))
  qed
  finally show ?thesis
    using assms(1) g by (simp add: row_step_def)
qed

lemma enumerate_split:
  assumes "i < length L"
  shows "enumerate 0 L = enumerate 0 (take i L) @ (i, L ! i) # enumerate (Suc i) (drop (Suc i) L)"
proof -
  have "L = take i L @ L ! i # drop (Suc i) L"
    using assms by (simp add: id_take_nth_drop)
  then have "enumerate 0 L = enumerate 0 (take i L @ L ! i # drop (Suc i) L)"
    by simp
  also have "\<dots> = enumerate 0 (take i L) @ (i, L ! i) # enumerate (Suc i) (drop (Suc i) L)"
    using assms by (simp add: enumerate_append_eq min_def)
  finally show ?thesis .
qed

lemma list_ex_enumerate:
  "list_ex (\<lambda>p. upper (snd p) = sy) (enumerate n L) = mentioned sy L"
  by (induction L arbitrary: n) (auto simp: mentioned_def)

lemma reorder_favorites_rows:
  "favorites (snd (reorder_favorites now L d)) =
     map (fold (row_step now) (enumerate 0 L)) (favorites d)"
  by (simp add: reorder_favorites_def fold_rows)

lemma reorder_row_last_position:
  assumes "is_last_position (fav_symbol f) L i"
  shows "fav_sort_order (fold (row_step now) (enumerate 0 L) f) = int i"
proof -
  from assms have i: "i < length L" and u: "upper (L ! i) = fav_symbol f"
    and n: "\<not> mentioned (fav_symbol f) (drop (Suc i) L)"
    by (simp_all add: is_last_position_def)
  from n have "\<not> list_ex (\<lambda>p. upper (snd p) = fav_symbol f) (enumerate (Suc i) (drop (Suc i) L))"
    by (simp add: list_ex_enumerate)
  with u show ?thesis
    unfolding enumerate_split [OF i] by (rule row_last_match)
qed

lemma reorder_row_not_mentioned:
  "\<not> mentioned (fav_symbol f) L \<Longrightarrow> fold (row_step now) (enumerate 0 L) f = f"
  by (rule row_untouched) (simp add: list_ex_enumerate)

text \<open>
  A mentioned symbol has a position, and only one; in a list without repeated symbols
  every index that holds the symbol is that position.
\<close>

lemma mentioned_has_last_position:
  "mentioned sy L \<Longrightarrow> \<exists>i. is_last_position sy L i"
proof (induction L rule: rev_induct)
  case Nil
  then show ?case by (simp add: mentioned_def)
next
  case (snoc x xs)
  show ?case
  proof (cases "upper x = sy")
    case True
    then have "is_last_position sy (xs @ [x]) (length xs)"
      by (simp add: is_last_position_def mentioned_def)
    then show ?thesis ..
  next
    case False
    with snoc.prems have "mentioned sy xs"
      by (simp add: mentioned_def)
    then obtain i where i: "is_last_position sy xs i"
      using snoc.IH by blast
    then have "is_last_position sy (xs @ [x]) i"
      using False by (auto simp: is_last_position_def mentioned_def nth_append)
    then show ?thesis ..
  qed
qed

lemma last_position_unique:
  "is_last_position sy L i \<Longrightarrow> is_last_position sy L j \<Longrightarrow> i = j"
proof (rule ccontr)
  assume a: "is_last_position sy L i" and b: "is_last_position sy L j" and "i \<noteq> j"
  then consider "i < j" | "j < i" by linarith
  then show False
  proof cases
    case 1
    with b have "L ! j \<in> set (drop (Suc i) L)"
      by (auto simp: is_last_position_def in_set_conv_nth intro!: exI [of _ "j - Suc i"])
    with a b show False
      by (auto simp: is_last_position_def mentioned_def list_ex_iff)
  next
    case 2
    with a have "L ! i \<in> set (drop (Suc j) L)"
      by (auto simp: is_last_position_def in_set_conv_nth intro!: exI [of _ "i - Suc j"])
    with a b show False
      by (auto simp: is_last_position_def mentioned_def list_ex_iff)
  qed
qed

lemma distinct_position_is_last:
  assumes "distinct (map upper L)" and "i < length L" and "upper (L ! i) = sy"
  shows "is_last_position sy L i"
proof -
  have "\<not> mentioned sy (drop (Suc i) L)"
  proof
    assume "mentioned sy (drop (Suc i) L)"
    then obtain k where k: "k < length L - Suc i" and e: "upper (drop (Suc i) L ! k) = sy"
      by (auto simp: mentioned_def list_ex_iff in_set_conv_nth)
    have "(map upper L ! (Suc i + k) = map upper L ! i) = (Suc i + k = i)"
      by (rule nth_eq_iff_index_eq) (use assms k in simp_all)
    with assms k e show False
      by simp
  qed
  with assms show ?thesis
    by (simp add: is_last_position_def)
qed

text \<open>The example of the specification, on the database with A, B and C.\<close>

lemma upper_examples:
  "upper ''A'' = ''A''" "upper ''B'' = ''B''" "upper ''C'' = ''C''"
  "upper ''a'' = ''A''" "upper ''b'' = ''B''" "upper ''eth'' = ''ETH''"
  "upper ''XRP'' = ''XRP''" "upper ''DOGE'' = ''DOGE''"
  by code_simp+

lemma abc_db_rows:
  "favorites abc_db = [fav_row 1 ''A'' 1 t0, fav_row 2 ''B'' 2 t1, fav_row 3 ''C'' 3 t2]"
  by (simp add: abc_db_def add_favorite_def insert_favorite_def max_sort_order_def fav_req_def
      empty_db_def upper_examples Let_def fav_row_def color_or_default_def int64_def)

lemma abc_reordered:
  "map (\<lambda>f. (fav_symbol f, fav_sort_order f))
     (favorites (snd (reorder_favorites now [''B'', ''A'', ''C''] abc_db))) =
     [(''A'', 1), (''B'', 0), (''C'', 2)]"
  by (simp add: reorder_favorites_def set_sort_order_def abc_db_rows fav_row_def upper_examples)

lemma abc_listing:
  "favorites_listing (snd (reorder_favorites now [''B'', ''A'', ''C''] abc_db)) =
     Some [''B'', ''A'', ''C'']"
  by (simp add: reorder_favorites_def set_sort_order_def abc_db_rows fav_row_def upper_examples
      favorites_listing_def get_favorites_def order_by_def fav_before_def)

text \<open>
  Claim C5, as amended. After \<^verbatim>\<open>POST /favorites/reorder\<close> with the list \<open>L\<close> the
  table has the same rows with the same symbols; each favorite whose symbol is
  mentioned in \<open>L\<close> (the elements upper-cased) has \<^verbatim>\<open>sort_order\<close> equal to its 0-based
  position in \<open>L\<close>, the last one if the symbol is repeated; every other favorite keeps its
  \<^verbatim>\<open>sort_order\<close>. In particular, on the favorites A, B, C the list [B, A, C] yields
  A=1, B=0, C=2, and the next \<^verbatim>\<open>GET /favorites\<close> lists B, A, C.
\<close>

theorem reorder_favorites_sort_order:
  "length (favorites (snd (reorder_favorites now L d))) = length (favorites d) \<and>
   (\<forall>k<length (favorites d).
      fav_symbol (favorites (snd (reorder_favorites now L d)) ! k) = fav_symbol (favorites d ! k) \<and>
      (mentioned (fav_symbol (favorites d ! k)) L \<longrightarrow>
         (\<exists>i. is_last_position (fav_symbol (favorites d ! k)) L i \<and>
              fav_sort_order (favorites (snd (reorder_favorites now L d)) ! k) = int i)) \<and>
      (\<not> mentioned (fav_symbol (favorites d ! k)) L \<longrightarrow>
         fav_sort_order (favorites (snd (reorder_favorites now L d)) ! k) =
           fav_sort_order (favorites d ! k))) \<and>
   map (\<lambda>f. (fav_symbol f, fav_sort_order f))
     (favorites (snd (reorder_favorites now [''B'', ''A'', ''C''] abc_db))) =
     [(''A'', 1), (''B'', 0), (''C'', 2)] \<and>
   favorites_listing (snd (reorder_favorites now [''B'', ''A'', ''C''] abc_db)) =
     Some [''B'', ''A'', ''C'']"
proof (intro conjI allI impI)
  show "length (favorites (snd (reorder_favorites now L d))) = length (favorites d)"
    by (simp add: reorder_favorites_rows)
next
  fix k assume "k < length (favorites d)"
  then show "fav_symbol (favorites (snd (reorder_favorites now L d)) ! k) =
      fav_symbol (favorites d ! k)"
    by (simp add: reorder_favorites_rows row_symbol)
next
  fix k assume k: "k < length (favorites d)"
    and m: "mentioned (fav_symbol (favorites d ! k)) L"
  from m obtain i where i: "is_last_position (fav_symbol (favorites d ! k)) L i"
    using mentioned_has_last_position by blast
  with k have "fav_sort_order (favorites (snd (reorder_favorites now L d)) ! k) = int i"
    by (simp add: reorder_favorites_rows reorder_row_last_position)
  with i show "\<exists>i. is_last_position (fav_symbol (favorites d ! k)) L i \<and>
      fav_sort_order (favorites (snd (reorder_favorites now L d)) ! k) = int i"
    by blast
next
  fix k assume "k < length (favorites d)"
    and "\<not> mentioned (fav_symbol (favorites d ! k)) L"
  then show "fav_sort_order (favorites (snd (reorder_favorites now L d)) ! k) =
      fav_sort_order (favorites d ! k)"
    by (simp add: reorder_favorites_rows reorder_row_not_mentioned)
next
  show "map (\<lambda>f. (fav_symbol f, fav_sort_order f))
     (favorites (snd (reorder_favorites now [''B'', ''A'', ''C''] abc_db))) =
     [(''A'', 1), (''B'', 0), (''C'', 2)]"
    by (rule abc_reordered)
next
  show "favorites_listing (snd (reorder_favorites now [''B'', ''A'', ''C''] abc_db)) =
     Some [''B'', ''A'', ''C'']"
    by (rule abc_listing)
qed

text \<open>
  On the favorites A, B, C and the list [eth, B, a, b]: B is mentioned, its position
  is 3 (the later of its two occurrences), and 3 is its new \<^verbatim>\<open>sort_order\<close>.
\<close>

theorem reorder_favorites_sort_order_witness:
  "1 < length (favorites abc_db) \<and>
   mentioned (fav_symbol (favorites abc_db ! 1)) mixed_order \<and>
   is_last_position (fav_symbol (favorites abc_db ! 1)) mixed_order 3 \<and>
   fav_sort_order (favorites (snd (reorder_favorites t0 mixed_order abc_db)) ! 1) = 3"
proof -
  have s: "fav_symbol (favorites abc_db ! 1) = ''B''" and k: "1 < length (favorites abc_db)"
    by (simp_all add: abc_db_rows fav_row_def)
  have m: "mentioned (fav_symbol (favorites abc_db ! 1)) mixed_order"
    and p: "is_last_position (fav_symbol (favorites abc_db ! 1)) mixed_order 3"
    unfolding s by (simp_all add: mentioned_def is_last_position_def mixed_order_def upper_examples)
  from reorder_favorites_sort_order [of t0 mixed_order abc_db] k m
  obtain i where "is_last_position (fav_symbol (favorites abc_db ! 1)) mixed_order i"
    and "fav_sort_order (favorites (snd (reorder_favorites t0 mixed_order abc_db)) ! 1) = int i"
    by blast
  with p have "fav_sort_order (favorites (snd (reorder_favorites t0 mixed_order abc_db)) ! 1) = 3"
    using last_position_unique by fastforce
  with k m p show ?thesis
    by simp
qed

text \<open>
  Claim C5 as stated fails in its example: after the reorder with [B, A, C] the
  listing is not A, B, C.
\<close>

theorem reorder_listing_not_abc:
  "favorites_listing (snd (reorder_favorites t0 [''B'', ''A'', ''C''] abc_db)) \<noteq>
     Some [''A'', ''B'', ''C'']"
  by (simp add: abc_listing)

text \<open>
  Claim C10. \<^verbatim>\<open>POST /favorites/reorder\<close> always succeeds, whatever symbols the list
  holds. It touches the favorites table only, creates and deletes no row (the symbols
  of the table are as before), and leaves every row whose symbol is not mentioned in the
  list exactly as it was; when no favorite is mentioned the database is unchanged.
\<close>

theorem reorder_favorites_ignores_unknown:
  "fst (reorder_favorites now L d) = Inr () \<and>
   snd (reorder_favorites now L d) = d\<lparr>favorites := favorites (snd (reorder_favorites now L d))\<rparr> \<and>
   map fav_symbol (favorites (snd (reorder_favorites now L d))) = map fav_symbol (favorites d) \<and>
   (\<forall>k<length (favorites d).
      \<not> mentioned (fav_symbol (favorites d ! k)) L \<longrightarrow>
        favorites (snd (reorder_favorites now L d)) ! k = favorites d ! k) \<and>
   (\<not> list_ex (\<lambda>f. mentioned (fav_symbol f) L) (favorites d) \<longrightarrow>
      snd (reorder_favorites now L d) = d)"
proof (intro conjI allI impI)
  show "fst (reorder_favorites now L d) = Inr ()"
    by (simp add: reorder_favorites_def)
next
  show "snd (reorder_favorites now L d) =
      d\<lparr>favorites := favorites (snd (reorder_favorites now L d))\<rparr>"
    by (simp add: reorder_favorites_def)
next
  show "map fav_symbol (favorites (snd (reorder_favorites now L d))) = map fav_symbol (favorites d)"
    by (simp add: reorder_favorites_rows row_symbol)
next
  fix k assume "k < length (favorites d)"
    and "\<not> mentioned (fav_symbol (favorites d ! k)) L"
  then show "favorites (snd (reorder_favorites now L d)) ! k = favorites d ! k"
    by (simp add: reorder_favorites_rows reorder_row_not_mentioned)
next
  assume "\<not> list_ex (\<lambda>f. mentioned (fav_symbol f) L) (favorites d)"
  then have "\<forall>f\<in>set (favorites d). fold (row_step now) (enumerate 0 L) f = f"
    by (simp add: list_ex_iff reorder_row_not_mentioned)
  then have "map (fold (row_step now) (enumerate 0 L)) (favorites d) = favorites d"
    by (simp add: map_idI)
  then have "favorites (snd (reorder_favorites now L d)) = favorites d"
    by (simp only: reorder_favorites_rows)
  then show "snd (reorder_favorites now L d) = d"
    by (simp add: reorder_favorites_def)
qed

text \<open>The list [XRP, DOGE] on the favorites A, B, C: success, nothing changed.\<close>

theorem reorder_favorites_ignores_unknown_witness:
  "\<not> list_ex (\<lambda>f. mentioned (fav_symbol f) [''XRP'', ''DOGE'']) (favorites abc_db) \<and>
   reorder_favorites t0 [''XRP'', ''DOGE''] abc_db = (Inr (), abc_db)"
proof -
  have h: "\<not> list_ex (\<lambda>f. mentioned (fav_symbol f) [''XRP'', ''DOGE'']) (favorites abc_db)"
    by (simp add: abc_db_rows fav_row_def mentioned_def upper_examples)
  from reorder_favorites_ignores_unknown [of t0 "[''XRP'', ''DOGE'']" abc_db] h
  have "fst (reorder_favorites t0 [''XRP'', ''DOGE''] abc_db) = Inr ()"
    and "snd (reorder_favorites t0 [''XRP'', ''DOGE''] abc_db) = abc_db"
    by blast+
  with h show ?thesis
    by (simp add: prod_eq_iff)
qed


section \<open>Adding a favorite: the duplicate check\<close>

text \<open>Upper-casing twice is upper-casing once.\<close>

lemma upper_char_idem: "upper_char (upper_char c) = upper_char c"
proof (cases "97 \<le> (of_char c :: nat) \<and> (of_char c :: nat) \<le> 122")
  case True
  then have "(of_char c :: nat) - 32 < 256"
    by arith
  then have "((of_char c :: nat) - 32) mod 256 = of_char c - 32"
    by (rule mod_less)
  then have "(of_char (char_of (of_char c - 32 :: nat)) :: nat) = of_char c - 32"
    by simp
  moreover have "\<not> (97 \<le> (of_char c - 32 :: nat) \<and> (of_char c - 32 :: nat) \<le> 122)"
    using True by arith
  ultimately show ?thesis
    using True by (auto simp add: upper_char_def Let_def)
next
  case False
  then have "upper_char c = c"
    by (auto simp add: upper_char_def Let_def)
  then show ?thesis
    by simp
qed

lemma upper_idem: "upper (upper s) = upper s"
  by (simp add: upper_def upper_char_idem)

lemma upper_empty: "upper s = [] \<longleftrightarrow> s = []"
  by (simp add: upper_def)

lemma upper_more_examples:
  "upper ''BTCUSDT'' = ''BTCUSDT''" "upper ''ethusdt'' = ''ETHUSDT''"
  by code_simp+

lemma btc_fav_db_rows: "favorites btc_fav_db = [fav_row 1 ''BTCUSDT'' 1 t0]"
  by (simp add: btc_fav_db_def add_favorite_def insert_favorite_def max_sort_order_def
      fav_req_def empty_db_def upper_more_examples fav_row_def color_or_default_def int64_def)

text \<open>
  A symbol that is stored exactly as the client sent it is answered with 400. A symbol
  that is stored only in its upper-cased form passes the duplicate check, which looks the
  raw symbol up; the \<^verbatim>\<open>INSERT\<close> of the upper-cased symbol then violates
  \<^verbatim>\<open>UNIQUE\<close>, and the handler answers 500. In both cases no row is added.
\<close>

lemma add_favorite_exact_duplicate:
  "list_ex (\<lambda>f. fav_symbol f = fc_symbol req) (favorites d) \<Longrightarrow>
     add_favorite now cts req d = (Inl (HTTPException 400 (AlreadyFavorite (fc_symbol req))), d)"
  by (simp add: add_favorite_def)

lemma add_favorite_case_duplicate:
  "\<not> list_ex (\<lambda>f. fav_symbol f = fc_symbol req) (favorites d) \<Longrightarrow>
   list_ex (\<lambda>f. fav_symbol f = upper (fc_symbol req)) (favorites d) \<Longrightarrow>
     add_favorite now cts req d = (Inl (HTTPException 500 AddFavoriteFailed), d)"
  by (simp add: add_favorite_def insert_favorite_def Let_def)

lemma add_favorite_no_second_row:
  "list_ex (\<lambda>f. fav_symbol f = upper (fc_symbol req)) (favorites d) \<Longrightarrow>
     snd (add_favorite now cts req d) = d"
  by (cases "list_ex (\<lambda>f. fav_symbol f = fc_symbol req) (favorites d)")
     (simp_all add: add_favorite_exact_duplicate add_favorite_case_duplicate)

text \<open>
  Claim C4 at the request \<^verbatim>\<open>{symbol: btcusdt}\<close> when BTCUSDT is a favorite: the
  symbol exists under case-insensitive comparison, the favorites are left unchanged,
  but the error is 500, not the duplicate error 400.
\<close>

theorem add_favorite_lowercase_duplicate_500:
  "add_favorite now cts (fav_req ''btcusdt'') btc_fav_db =
     (Inl (HTTPException 500 AddFavoriteFailed), btc_fav_db)"
  by (rule add_favorite_case_duplicate)
     (simp_all add: btc_fav_db_rows fav_row_def fav_req_def upper_btcusdt)

text \<open>
  Claim C8 at the same request: the duplicate lookup of \<^verbatim>\<open>POST /favorites\<close> compares
  the symbol as sent. With BTCUSDT stored, the request in upper case is recognised as a
  duplicate and the one in lower case is not.
\<close>

theorem add_favorite_lookup_not_normalized:
  "fst (add_favorite now cts (fav_req ''BTCUSDT'') btc_fav_db) =
     Inl (HTTPException 400 (AlreadyFavorite ''BTCUSDT'')) \<and>
   fst (add_favorite now cts (fav_req ''btcusdt'') btc_fav_db) =
     Inl (HTTPException 500 AddFavoriteFailed)"
  by (simp add: add_favorite_exact_duplicate add_favorite_case_duplicate btc_fav_db_rows
      fav_row_def fav_req_def upper_btcusdt)

text \<open>
  The other handlers that take a symbol do upper-case it before every use: sending the
  symbol already upper-cased changes nothing in what they store or return.
\<close>

lemma remove_favorite_normalized:
  "snd (remove_favorite (upper s) d) = snd (remove_favorite s d)"
  by (simp add: remove_favorite_def upper_idem)

lemma update_favorite_normalized:
  "snd (update_favorite now (upper s) u d) = snd (update_favorite now s u d)"
  by (simp add: update_favorite_def upper_idem)

lemma add_to_watchlist_normalized:
  "snd (add_to_watchlist now (upper s) d) = snd (add_to_watchlist now s d)"
  by (simp add: add_to_watchlist_def upper_idem)

lemma update_watchlist_item_normalized:
  "update_watchlist_item now item_id (upper s) a d = update_watchlist_item now item_id s a d"
  by (simp add: update_watchlist_item_def upper_idem)

lemma get_paper_trades_normalized:
  "get_paper_trades st (Some (upper s)) d = get_paper_trades st (Some s) d"
  by (simp add: get_paper_trades_def upper_idem upper_empty)

lemma reorder_favorites_normalized:
  "reorder_favorites now (map upper L) d = reorder_favorites now L d"
proof -
  have "fold (set_sort_order now) (enumerate n (map upper L)) fs =
      fold (set_sort_order now) (enumerate n L) fs" for n fs
    by (induction L arbitrary: n fs) (simp_all add: set_sort_order_def upper_idem)
  then show ?thesis
    by (simp add: reorder_favorites_def)
qed

lemma create_paper_trade_normalized:
  "snd (create_paper_trade now (trade\<lparr>ptc_symbol := upper (ptc_symbol trade)\<rparr>) d) =
     snd (create_paper_trade now trade d)"
  by (simp add: create_paper_trade_def persist_paper_trade_def insert_paper_trade_def
      trade_row_def upper_idem Let_def not_null_reals_def)


section \<open>The watchlist read\<close>

text \<open>\<^verbatim>\<open>ORDER BY\<close> returns the rows it is given.\<close>

lemma set_insert_by: "set (insert_by le x xs) = insert x (set xs)"
  by (induction xs) auto

lemma set_order_by: "set (order_by le xs) = set xs"
  by (induction xs) (simp_all add: order_by_def set_insert_by)

lemma length_insert_by: "length (insert_by le x xs) = Suc (length xs)"
  by (induction xs) auto

lemma length_order_by: "length (order_by le xs) = length xs"
  by (induction xs) (simp_all add: order_by_def length_insert_by)

text \<open>Clearing every flag and setting it where the symbol is a favorite's makes the
  flag of every row the membership of its symbol in the favorites.\<close>

lemma recomputed_flags:
  "set_flags fs (clear_flags ws) =
     map (\<lambda>w. w\<lparr>wl_is_favorite := (wl_symbol w \<in> set (map fav_symbol fs))\<rparr>) ws"
  by (induction ws) (simp_all add: set_flags_def clear_flags_def)

text \<open>The two ways in which the read reaches its listing.\<close>

lemma get_watchlist_working:
  "listing_reached F \<Longrightarrow> recomputation_succeeds F \<Longrightarrow>
     get_watchlist F d =
       (Inr (order_by wl_before (set_flags (favorites d) (clear_flags (watchlist d)))),
        d\<lparr>watchlist := set_flags (favorites d) (clear_flags (watchlist d))\<rparr>)"
  by (simp add: get_watchlist_def update_watchlist_favorites_def listing_reached_def
      recomputation_succeeds_def)

lemma get_watchlist_abandoned:
  "listing_reached F \<Longrightarrow> recomputation_abandoned F \<Longrightarrow>
     get_watchlist F d = (Inr (order_by wl_before (watchlist d)), d)"
  by (auto simp: get_watchlist_def update_watchlist_favorites_def listing_reached_def
      recomputation_abandoned_def)

lemma remove_favorite_gone:
  "fst (remove_favorite s d) = Inr () \<Longrightarrow>
     upper s \<notin> set (map fav_symbol (favorites (snd (remove_favorite s d))))"
  by (auto simp: remove_favorite_def split: if_splits)

lemma remove_favorite_watchlist:
  "watchlist (snd (remove_favorite s d)) = watchlist d"
  by (simp add: remove_favorite_def)

lemma get_watchlist_listing:
  assumes "listing_reached F" and "recomputation_succeeds F"
  shows "\<exists>rows.
      get_watchlist F d =
        (Inr rows,
         d\<lparr>watchlist :=
             map (\<lambda>w. w\<lparr>wl_is_favorite := (wl_symbol w \<in> set (map fav_symbol (favorites d)))\<rparr>)
               (watchlist d)\<rparr>) \<and>
      length rows = length (watchlist d) \<and>
      wl_id ` set rows = wl_id ` set (watchlist d) \<and>
      (\<forall>w\<in>set rows. wl_is_favorite w = (wl_symbol w \<in> set (map fav_symbol (favorites d))))"
proof -
  let ?ws = "map (\<lambda>w. w\<lparr>wl_is_favorite := (wl_symbol w \<in> set (map fav_symbol (favorites d)))\<rparr>)
      (watchlist d)"
  let ?rows = "order_by wl_before ?ws"
  have "get_watchlist F d = (Inr ?rows, d\<lparr>watchlist := ?ws\<rparr>)"
    by (simp only: get_watchlist_working [OF assms] recomputed_flags)
  moreover have "length ?rows = length (watchlist d)"
    by (simp add: length_order_by)
  moreover have "wl_id ` set ?rows = wl_id ` set (watchlist d)"
    by (simp add: set_order_by image_image)
  moreover have "\<forall>w\<in>set ?rows. wl_is_favorite w = (wl_symbol w \<in> set (map fav_symbol (favorites d)))"
    by (auto simp: set_order_by)
  ultimately show ?thesis
    by blast
qed

text \<open>
  Claim C7, as amended. When the read reaches its listing and the recomputation
  succeeds, \<^verbatim>\<open>GET /watchlist\<close> stores, for every row, the flag \<^verbatim>\<open>is_favorite\<close>
  recomputed as the membership of the row's symbol in the favorites, and returns all
  rows, each with that flag; in particular, after a favorite has been deleted such a
  read returns every row of that symbol with the flag false. When one of the two
  \<^verbatim>\<open>UPDATE\<close>s or the commit of the recomputation fails, the recomputation is abandoned
  and the read returns the rows with the flags as they were stored, which may be stale.
\<close>

theorem get_watchlist_recomputes_flags:
  "(listing_reached F \<and> recomputation_succeeds F \<longrightarrow>
      (\<exists>rows.
         get_watchlist F d =
           (Inr rows,
            d\<lparr>watchlist :=
                map (\<lambda>w. w\<lparr>wl_is_favorite := (wl_symbol w \<in> set (map fav_symbol (favorites d)))\<rparr>)
                  (watchlist d)\<rparr>) \<and>
         length rows = length (watchlist d) \<and>
         wl_id ` set rows = wl_id ` set (watchlist d) \<and>
         (\<forall>w\<in>set rows. wl_is_favorite w = (wl_symbol w \<in> set (map fav_symbol (favorites d)))))) \<and>
   (listing_reached F \<and> recomputation_succeeds F \<and> fst (remove_favorite s d) = Inr () \<longrightarrow>
      (\<exists>rows.
         fst (get_watchlist F (snd (remove_favorite s d))) = Inr rows \<and>
         length rows = length (watchlist d) \<and>
         (\<forall>w\<in>set rows. wl_symbol w = upper s \<longrightarrow> \<not> wl_is_favorite w))) \<and>
   (listing_reached F \<and> recomputation_abandoned F \<longrightarrow>
      get_watchlist F d = (Inr (order_by wl_before (watchlist d)), d))"
proof (intro conjI impI)
  assume "listing_reached F \<and> recomputation_succeeds F"
  then show "\<exists>rows.
         get_watchlist F d =
           (Inr rows,
            d\<lparr>watchlist :=
                map (\<lambda>w. w\<lparr>wl_is_favorite := (wl_symbol w \<in> set (map fav_symbol (favorites d)))\<rparr>)
                  (watchlist d)\<rparr>) \<and>
         length rows = length (watchlist d) \<and>
         wl_id ` set rows = wl_id ` set (watchlist d) \<and>
         (\<forall>w\<in>set rows. wl_is_favorite w = (wl_symbol w \<in> set (map fav_symbol (favorites d))))"
    using get_watchlist_listing [of F d] by blast
next
  let ?d = "snd (remove_favorite s d)"
  assume a: "listing_reached F \<and> recomputation_succeeds F \<and> fst (remove_favorite s d) = Inr ()"
  then have gone: "upper s \<notin> set (map fav_symbol (favorites ?d))"
    using remove_favorite_gone [of s d] by blast
  from a get_watchlist_listing [of F ?d] obtain rows where
    r: "fst (get_watchlist F ?d) = Inr rows"
    and l: "length rows = length (watchlist ?d)"
    and f: "\<forall>w\<in>set rows. wl_is_favorite w = (wl_symbol w \<in> set (map fav_symbol (favorites ?d)))"
    by force
  from f gone have "\<forall>w\<in>set rows. wl_symbol w = upper s \<longrightarrow> \<not> wl_is_favorite w"
    by auto
  with r l show "\<exists>rows.
         fst (get_watchlist F ?d) = Inr rows \<and>
         length rows = length (watchlist d) \<and>
         (\<forall>w\<in>set rows. wl_symbol w = upper s \<longrightarrow> \<not> wl_is_favorite w)"
    by (auto simp: remove_favorite_watchlist)
next
  assume "listing_reached F \<and> recomputation_abandoned F"
  then show "get_watchlist F d = (Inr (order_by wl_before (watchlist d)), d)"
    by (simp add: get_watchlist_abandoned)
qed

text \<open>
  ETHUSDT and BTCUSDT on the watchlist, BTCUSDT a favorite: the read flags BTCUSDT.
  After the favorite is deleted the stored flag is stale. The next read clears it when
  the recomputation succeeds, and shows it as stored when the commit of the
  recomputation fails.
\<close>

lemma working_store: "listing_reached {}" "recomputation_succeeds {}"
  by (simp_all add: listing_reached_def recomputation_succeeds_def)

lemma watch_db_tables:
  "favorites watch_db = [fav_row 1 ''BTCUSDT'' 1 t2]"
  "watchlist watch_db = [wl_row 1 ''ETHUSDT'' t0 False, wl_row 2 ''BTCUSDT'' t1 False]"
  by (simp_all add: watch_db_def add_favorite_def insert_favorite_def max_sort_order_def
      fav_req_def add_to_watchlist_def empty_db_def upper_btcusdt upper_more_examples
      fav_row_def wl_row_def color_or_default_def Let_def int64_def)

lemma watch_db_listing:
  "listing {} watch_db = Some [(''BTCUSDT'', True), (''ETHUSDT'', False)]"
  by (simp add: listing_def get_watchlist_working working_store watch_db_tables set_flags_def
      clear_flags_def fav_row_def wl_row_def order_by_def wl_before_def)

lemma stale_db_tables:
  "favorites stale_db = []"
  "watchlist stale_db = [wl_row 1 ''ETHUSDT'' t0 False, wl_row 2 ''BTCUSDT'' t1 True]"
  by (simp_all add: stale_db_def get_watchlist_working working_store remove_favorite_def
      watch_db_tables set_flags_def clear_flags_def fav_row_def wl_row_def upper_btcusdt)

lemma stale_listing:
  "order_by wl_before (watchlist stale_db) =
     [wl_row 2 ''BTCUSDT'' t1 True, wl_row 1 ''ETHUSDT'' t0 False]"
  by (simp add: stale_db_tables order_by_def wl_before_def wl_row_def)

theorem get_watchlist_recomputes_flags_witness:
  "listing_reached {} \<and> recomputation_succeeds {} \<and>
   fst (remove_favorite ''btcusdt'' (snd (get_watchlist {} watch_db))) = Inr () \<and>
   listing {} watch_db = Some [(''BTCUSDT'', True), (''ETHUSDT'', False)] \<and>
   listing {} stale_db = Some [(''BTCUSDT'', False), (''ETHUSDT'', False)] \<and>
   listing_reached {SyncCommit} \<and> recomputation_abandoned {SyncCommit} \<and>
   listing {SyncCommit} stale_db = Some [(''BTCUSDT'', True), (''ETHUSDT'', False)]"
proof -
  let ?d = "snd (get_watchlist {} watch_db)"
  have h: "fst (remove_favorite ''btcusdt'' ?d) = Inr ()"
    by (simp add: get_watchlist_working working_store remove_favorite_def watch_db_tables
        fav_row_def upper_btcusdt)
  have c: "listing_reached {SyncCommit} \<and> recomputation_abandoned {SyncCommit}"
    by (simp add: listing_reached_def recomputation_abandoned_def)
  from get_watchlist_recomputes_flags [of "{}" ?d "''btcusdt''"] h working_store
  obtain rows where r: "fst (get_watchlist {} stale_db) = Inr rows"
    and f: "\<forall>w\<in>set rows. wl_symbol w = upper ''btcusdt'' \<longrightarrow> \<not> wl_is_favorite w"
    unfolding stale_db_def by blast
  from get_watchlist_recomputes_flags [of "{SyncCommit}" stale_db] c
  have "get_watchlist {SyncCommit} stale_db = (Inr (order_by wl_before (watchlist stale_db)), stale_db)"
    by blast
  then have s: "listing {SyncCommit} stale_db = Some [(''BTCUSDT'', True), (''ETHUSDT'', False)]"
    by (simp add: listing_def stale_listing wl_row_def)
  have "listing {} stale_db = Some [(''BTCUSDT'', False), (''ETHUSDT'', False)]"
    by (simp add: listing_def get_watchlist_working working_store stale_db_tables set_flags_def
        clear_flags_def wl_row_def order_by_def wl_before_def)
  with h r f c s show ?thesis
    by (simp add: watch_db_listing working_store)
qed

text \<open>
  Claim C7 as stated fails: right after the favorite BTCUSDT has been deleted, a read
  whose first \<^verbatim>\<open>UPDATE\<close> of the recomputation fails returns a listing in which BTCUSDT
  is flagged, while BTCUSDT is not among the favorites.
\<close>

theorem get_watchlist_stale_flag:
  "listing {SyncExecute 0} stale_db = Some [(''BTCUSDT'', True), (''ETHUSDT'', False)] \<and>
   ''BTCUSDT'' \<notin> set (map fav_symbol (favorites stale_db))"
  by (simp add: listing_def get_watchlist_def update_watchlist_favorites_def stale_db_tables
      order_by_def wl_before_def wl_row_def)


section \<open>Failures of the store\<close>

text \<open>Over a store that works the second form of every handler is the first.\<close>

lemma get_favorites_under_empty: "get_favorites_under {} d = get_favorites d"
  by (simp add: get_favorites_under_def get_favorites_def read_handler_def call_def)

lemma add_favorite_under_empty:
  "add_favorite_under {} now cts favorite d = add_favorite now cts favorite d"
  by (simp add: add_favorite_under_def add_favorite_def handler_def call_def Let_def
      split: sum.splits)

lemma update_favorite_under_empty:
  "update_favorite_under {} now symbol favorite d = update_favorite now symbol favorite d"
  by (simp add: update_favorite_under_def update_favorite_def handler_def call_def)

lemma remove_favorite_under_empty:
  "remove_favorite_under {} symbol d = remove_favorite symbol d"
  by (simp add: remove_favorite_under_def remove_favorite_def handler_def call_def)

lemma reorder_favorites_under_empty:
  "reorder_favorites_under {} now L d = reorder_favorites now L d"
  by (simp add: reorder_favorites_under_def reorder_favorites_def handler_def call_def
      list_ex_iff)

lemma add_to_watchlist_under_empty:
  "add_to_watchlist_under {} now symbol d = add_to_watchlist now symbol d"
  by (simp add: add_to_watchlist_under_def add_to_watchlist_def handler_def call_def Let_def)

lemma update_watchlist_item_under_empty:
  "update_watchlist_item_under {} now item_id symbol a d =
     update_watchlist_item now item_id symbol a d"
  by (simp add: update_watchlist_item_under_def update_watchlist_item_def handler_def call_def)

lemma get_paper_trades_under_empty:
  "get_paper_trades_under {} status symbol d = get_paper_trades status symbol d"
  by (simp add: get_paper_trades_under_def get_paper_trades_def read_handler_def call_def)

lemma get_paper_trading_stats_under_empty:
  "get_paper_trading_stats_under {} d = get_paper_trading_stats d"
  by (simp add: get_paper_trading_stats_under_def get_paper_trading_stats_def read_handler_def
      call_def)

text \<open>
  The two frames: whatever the block does and whichever calls fail, the response is
  the block's value or the block's own HTTP error, with nothing committed in the
  second case, or it surfaces a failure.
\<close>

lemma handler_cases:
  "handler F det d body = handler {} det d body \<or> surfaced det d (handler F det d body)"
  by (auto simp: handler_def surfaced_def split: sum.splits exn.splits prod.splits)

lemma read_handler_cases:
  "read_handler F det d body = read_handler {} det d body \<or>
     surfaced det d (read_handler F det d body)"
  by (auto simp: read_handler_def surfaced_def split: sum.splits exn.splits prod.splits)

lemma handler_failed:
  "surfaced det d (handler F det d (Inl (Store e)))"
  by (simp add: handler_def surfaced_def)

lemma read_handler_failed:
  "surfaced det d (read_handler F det d (Inl (Store e)))"
  by (simp add: read_handler_def surfaced_def)

lemma handler_connect:
  "Connect \<in> F \<Longrightarrow> surfaced det d (handler F det d body)"
  by (simp add: handler_def surfaced_def)

lemma read_handler_connect:
  "Connect \<in> F \<Longrightarrow> surfaced det d (read_handler F det d body)"
  by (simp add: read_handler_def surfaced_def)























end
